theory Spec2Isabelle
  imports Complex_Main "HOL-Library.AList"
begin

text \<open>
  A model of the chat endpoint of the product assistant API: the controller's
  \<open>handleQuery\<close> (\<open>controllers/chatController.js\<close>), the cache, memory and RAG services it
  calls (\<open>services/cacheService.js\<close>, \<open>services/memoryService.js\<close>,
  \<open>services/ragService.js\<close>) and the catalogue lookup \<open>getProductsBySKUs\<close> of \<open>db.mjs\<close>.
  Each source function is a definition of the same name; an \<open>async\<close> function takes the
  trace of external calls made so far and returns its result, or the error it throws,
  with the extended trace. A log statement is modelled where it can throw: where it
  converts a dynamically typed value to a string or calls a method on one.
\<close>

section \<open>JavaScript values\<close>

text \<open>
  The handler works on dynamically typed values: the LLM result, the parsed JSON, the
  documents read from the store. They are modelled by one datatype. Strings are lists of
  code units (restricted to the first 256), objects are association lists in property
  order, and a property is read with \<open>map_of\<close> (first binding wins).
\<close>

datatype jsnum = NaN | PosInfinity | NegInfinity | Finite rat

datatype jsval =
    JUndefined
  | JNull
  | JBool bool
  | JNum jsnum
  | JStr string
  | JArr "jsval list"
  | JObj "(string \<times> jsval) list"
  | JDate nat

text \<open>ToBoolean: what \<open>if (v)\<close>, \<open>!v\<close>, \<open>a || b\<close> and \<open>a && b\<close> test.\<close>

fun truthy :: "jsval \<Rightarrow> bool" where
  "truthy JUndefined = False"
| "truthy JNull = False"
| "truthy (JBool b) = b"
| "truthy (JNum NaN) = False"
| "truthy (JNum (Finite r)) = (r \<noteq> 0)"
| "truthy (JNum PosInfinity) = True"
| "truthy (JNum NegInfinity) = True"
| "truthy (JStr s) = (s \<noteq> [])"
| "truthy (JArr xs) = True"
| "truthy (JObj kvs) = True"
| "truthy (JDate t) = True"

text \<open>\<open>a || b\<close>\<close>

definition orJs :: "jsval \<Rightarrow> jsval \<Rightarrow> jsval" where
  "orJs a b = (if truthy a then a else b)"

text \<open>\<open>typeof v === 'string'\<close> and \<open>Array.isArray(v)\<close>\<close>

fun isString :: "jsval \<Rightarrow> bool" where
  "isString (JStr s) = True"
| "isString v = False"

fun isArray :: "jsval \<Rightarrow> bool" where
  "isArray (JArr xs) = True"
| "isArray v = False"

fun isNullish :: "jsval \<Rightarrow> bool" where
  "isNullish JUndefined = True"
| "isNullish JNull = True"
| "isNullish v = False"

text \<open>
  \<open>v.name\<close> for a value that is neither \<open>null\<close> nor \<open>undefined\<close>: the own property of an
  object, \<open>undefined\<close> otherwise (none of the property names the handler reads is defined
  on a primitive, an array or a date). Reading a property of \<open>null\<close> or \<open>undefined\<close> is a
  TypeError, written out at each place where the source can reach it.
\<close>

fun getProp :: "jsval \<Rightarrow> string \<Rightarrow> jsval" where
  "getProp (JObj kvs) k = (case map_of kvs k of Some v \<Rightarrow> v | None \<Rightarrow> JUndefined)"
| "getProp v k = JUndefined"

text \<open>\<open>o.name = v\<close> on an object: an existing property keeps its place, a new one goes last.\<close>

fun setProp :: "jsval \<Rightarrow> string \<Rightarrow> jsval \<Rightarrow> jsval" where
  "setProp (JObj kvs) k v = JObj (AList.update k v kvs)"
| "setProp u k v = u"

section \<open>String built-ins\<close>

text \<open>WhiteSpace and LineTerminator code units below 256: what \<open>trim\<close> strips and \<open>\s\<close> matches.\<close>

definition isWhiteSpace :: "char \<Rightarrow> bool" where
  "isWhiteSpace c = (c = CHR 0x09 \<or> c = CHR 0x0A \<or> c = CHR 0x0B \<or> c = CHR 0x0C
     \<or> c = CHR 0x0D \<or> c = CHR 0x20 \<or> c = CHR 0xA0)"

definition trim :: "string \<Rightarrow> string" where
  "trim s = rev (dropWhile isWhiteSpace (rev (dropWhile isWhiteSpace s)))"

fun startsWith :: "string \<Rightarrow> string \<Rightarrow> bool" where
  "startsWith s [] = True"
| "startsWith [] (c # cs) = False"
| "startsWith (x # xs) (c # cs) = (x = c \<and> startsWith xs cs)"

fun includesStr :: "string \<Rightarrow> string \<Rightarrow> bool" where
  "includesStr [] t = (t = [])"
| "includesStr (x # xs) t = (startsWith (x # xs) t \<or> includesStr xs t)"

text \<open>\<open>parts.join(sep)\<close>\<close>

fun join :: "string list \<Rightarrow> string \<Rightarrow> string" where
  "join [] sep = []"
| "join [x] sep = x"
| "join (x # y # ys) sep = x @ sep @ join (y # ys) sep"

text \<open>\<open>xs.slice(start)\<close> with one argument: a negative start counts from the end.\<close>

definition slice :: "'a list \<Rightarrow> int \<Rightarrow> 'a list" where
  "slice xs start =
     (let len = int (length xs);
          k = (if start < 0 then max (len + start) 0 else min start len)
      in drop (nat k) xs)"

section \<open>The stores, the LLM and the runtime\<close>

text \<open>
  The document store, the LLM application and the product database are external. Each of
  their methods is modelled by its answer as a function of the whole history of external
  calls made so far (the trace), so no assumption is made on what they do; a rejected
  promise or a thrown exception is \<open>Inl\<close>. The handler appends one event to the trace for
  every call it makes.
\<close>

text \<open>
  An exception is an \<open>Error\<close> with its message. The message of a TypeError raised by the
  runtime is the runtime's; the model gives it a fixed text, on which nothing depends.
\<close>

datatype error = Error string

fun message :: "error \<Rightarrow> string" where
  "message (Error m) = m"

text \<open>
  A conversation entry \<open>{role, content, timestamp}\<close>. The store is external and owns the
  conversations: in the entries it returns, role and content are strings, which is what
  the rendering of a turn as \<open>role: content\<close> takes them to be. An entry that the handler
  appends holds as content the value the handler was given, which for the \<open>User\<close> turn is the
  query as the request carried it; the type of the content is therefore a parameter of the
  record.
\<close>

record 'c entry =
  role :: string
  content :: 'c
  timestamp :: nat

record conversation =
  conversationId :: string
  entries :: "string entry list option"

datatype event =
    LoaderCustomGet string
  | LoaderCustomSet string string jsval
  | HasConversation string
  | GetConversation string
  | AddConversation string
  | AddEntryToConversation string "jsval entry"
  | RagQuery string
  | ProductsFind "jsval list"

type_synonym trace = "event list"

text \<open>
  The store object. A method whose presence the source tests with
  \<open>typeof ... === 'function'\<close> is optional.
\<close>

record MongoStore =
  loaderCustomGet :: "string \<Rightarrow> trace \<Rightarrow> error + jsval"
  loaderCustomSet :: "(string \<Rightarrow> string \<Rightarrow> jsval \<Rightarrow> trace \<Rightarrow> error + unit) option"
  hasConversation :: "string \<Rightarrow> trace \<Rightarrow> error + bool"
  getConversation :: "string \<Rightarrow> trace \<Rightarrow> error + conversation option"
  addConversation :: "(string \<Rightarrow> trace \<Rightarrow> error + unit) option"
  addEntryToConversation :: "(string \<Rightarrow> jsval entry \<Rightarrow> trace \<Rightarrow> error + unit) option"

text \<open>
  Built-ins of the JavaScript runtime that the repository calls and does not define:
  they are parameters. \<open>JSON_parse\<close> is \<open>None\<close> where \<open>JSON.parse\<close> throws a SyntaxError;
  \<open>Date_now\<close> is the value of \<open>new Date()\<close>; \<open>timeout_first\<close> tells whether the 15 second
  timer wins the race against the LLM query.
\<close>

record runtime =
  JSON_parse :: "string \<Rightarrow> jsval option"
  JSON_stringify :: "jsval \<Rightarrow> string"
  Number_toString :: "jsnum \<Rightarrow> string"
  Date_toString :: "nat \<Rightarrow> string"
  String_replace :: "string \<Rightarrow> string \<Rightarrow> string \<Rightarrow> string"
  Date_now :: "trace \<Rightarrow> nat"
  timeout_first :: "trace \<Rightarrow> bool"

text \<open>
  ToString, as a template literal and \<open>String(v)\<close> apply it. An object is converted by its
  \<open>toString\<close> method, then by \<open>valueOf\<close>. A plain object inherits both: \<open>toString\<close> gives
  \<open>[object Object]\<close>. An object with an own property named \<open>toString\<close> (its value is data,
  not a function) has no callable \<open>toString\<close>, and the inherited \<open>valueOf\<close> returns the
  object itself: the conversion throws a TypeError. An array is converted by \<open>join\<close>, which
  converts its elements in order, \<open>null\<close> and \<open>undefined\<close> to the empty string.
\<close>

fun ToString :: "runtime \<Rightarrow> jsval \<Rightarrow> error + string"
  and elementStrings :: "runtime \<Rightarrow> jsval list \<Rightarrow> error + string list" where
  "ToString rt JUndefined = Inr ''undefined''"
| "ToString rt JNull = Inr ''null''"
| "ToString rt (JBool b) = Inr (if b then ''true'' else ''false'')"
| "ToString rt (JNum n) = Inr (Number_toString rt n)"
| "ToString rt (JStr s) = Inr s"
| "ToString rt (JArr xs) =
     (case elementStrings rt xs of
        Inl e \<Rightarrow> Inl e
      | Inr parts \<Rightarrow> Inr (join parts '',''))"
| "ToString rt (JObj kvs) =
     (if map_of kvs ''toString'' = None then Inr ''[object Object]''
      else Inl (Error ''Cannot convert object to primitive value''))"
| "ToString rt (JDate t) = Inr (Date_toString rt t)"
| "elementStrings rt [] = Inr []"
| "elementStrings rt (x # xs) =
     (case (if isNullish x then Inr [] else ToString rt x) of
        Inl e \<Rightarrow> Inl e
      | Inr part \<Rightarrow>
          (case elementStrings rt xs of
             Inl e \<Rightarrow> Inl e
           | Inr parts \<Rightarrow> Inr (part # parts)))"

text \<open>
  \<open>v.substring(indexStart, indexEnd)\<close> with \<open>indexStart \<le> indexEnd\<close>: only a string has the
  method, on every other value the call throws a TypeError.
\<close>

definition substring :: "jsval \<Rightarrow> nat \<Rightarrow> nat \<Rightarrow> error + string" where
  "substring v indexStart indexEnd =
     (case v of
        JStr s \<Rightarrow> Inr (take (indexEnd - indexStart) (drop indexStart s))
      | _ \<Rightarrow> Inl (Error ''query.substring is not a function''))"

text \<open>One external call: the method answers from the trace so far, and the call is logged.\<close>

definition call :: "event \<Rightarrow> (trace \<Rightarrow> error + 'a) \<Rightarrow> trace \<Rightarrow> (error + 'a) \<times> trace" where
  "call ev m tr = (m tr, tr @ [ev])"

section \<open>CacheService\<close>

text \<open>
  \<open>CacheService\<close> and \<open>MemoryService\<close> are two classes with the same single field,
  \<open>mongoStore\<close>, which is \<open>null\<close> until \<open>initialize\<close> is called.
\<close>

record service =
  mongoStore :: "MongoStore option"

type_synonym CacheService = service
type_synonym MemoryService = service

text \<open>
  The key is a template literal: \<open>query\<close>, which the handler passes as the request carried
  it, is converted to a string, and the conversion can throw.
\<close>

definition generateCacheKey :: "runtime \<Rightarrow> string \<Rightarrow> jsval \<Rightarrow> jsval \<Rightarrow> error + string" where
  "generateCacheKey rt userId query userMetadata =
     (let metadataString = JSON_stringify rt (orJs userMetadata (JObj []))
      in case ToString rt query of
           Inl e \<Rightarrow> Inl e
         | Inr queryText \<Rightarrow> Inr (''cache:'' @ userId @ '':'' @ queryText @ '':'' @ metadataString))"

text \<open>
  The \<open>try\<close> of \<open>getCachedResult\<close> encloses the store's \<open>loaderCustomGet\<close> only. The key is
  built before it, and the log of a cache hit, which calls \<open>query.substring(0, 30)\<close>, comes
  after it: an exception of either leaves the function.
\<close>

definition getCachedResult ::
  "runtime \<Rightarrow> CacheService \<Rightarrow> string \<Rightarrow> jsval \<Rightarrow> jsval \<Rightarrow> trace \<Rightarrow> (error + jsval) \<times> trace" where
  "getCachedResult rt this userId query userMetadata tr =
     (case mongoStore this of
        None \<Rightarrow> (Inr JNull, tr)
      | Some store \<Rightarrow>
          (case generateCacheKey rt userId query userMetadata of
             Inl e \<Rightarrow> (Inl e, tr)
           | Inr cacheKey \<Rightarrow>
               (case call (LoaderCustomGet cacheKey) (loaderCustomGet store cacheKey) tr of
                  (Inl cacheGetError, tr1) \<Rightarrow> (Inr JNull, tr1)
                | (Inr cachedResultDocument, tr1) \<Rightarrow>
                    if truthy cachedResultDocument \<and> truthy (getProp cachedResultDocument ''data'')
                    then (case substring query 0 30 of
                            Inl e \<Rightarrow> (Inl e, tr1)
                          | Inr shown \<Rightarrow> (Inr (getProp cachedResultDocument ''data''), tr1))
                    else (Inr JNull, tr1))))"

definition setCachedResult ::
  "runtime \<Rightarrow> CacheService \<Rightarrow> string \<Rightarrow> jsval \<Rightarrow> jsval \<Rightarrow> jsval \<Rightarrow> trace \<Rightarrow> (error + bool) \<times> trace" where
  "setCachedResult rt this userId query userMetadata data tr =
     (case mongoStore this of
        None \<Rightarrow> (Inr False, tr)
      | Some store \<Rightarrow>
          (case loaderCustomSet store of
             None \<Rightarrow> (Inr False, tr)
           | Some loaderCustomSet' \<Rightarrow>
               (case generateCacheKey rt userId query userMetadata of
                  Inl e \<Rightarrow> (Inl e, tr)
                | Inr cacheKey \<Rightarrow>
                    (let doc = JObj [(''data'', data), (''timestamp'', JDate (Date_now rt tr))]
                     in case call (LoaderCustomSet userId cacheKey doc) (loaderCustomSet' userId cacheKey doc) tr of
                          (Inl error, tr1) \<Rightarrow> (Inr False, tr1)
                        | (Inr u, tr1) \<Rightarrow> (Inr True, tr1)))))"

section \<open>RagService\<close>

record RagService =
  ragApplication :: "(string \<Rightarrow> trace \<Rightarrow> error + jsval) option"

text \<open>\<open>RagService.query\<close>\<close>

definition RagService_query :: "RagService \<Rightarrow> string \<Rightarrow> trace \<Rightarrow> (error + jsval) \<times> trace" where
  "RagService_query this prompt tr =
     (case ragApplication this of
        None \<Rightarrow> (Inl (Error ''RAG Application not initialized''), tr)
      | Some ragApplication_query \<Rightarrow> call (RagQuery prompt) (ragApplication_query prompt) tr)"

text \<open>
  \<open>result.answer || result.content || result.text || result.response || ''\<close>; reading a
  property of a \<open>null\<close> or \<open>undefined\<close> result throws a TypeError.
\<close>

definition extractOutput :: "jsval \<Rightarrow> error + jsval" where
  "extractOutput result =
     (if isNullish result then Inl (Error ''Cannot read properties of null or undefined'')
      else Inr (orJs (orJs (orJs (orJs (getProp result ''answer'') (getProp result ''content''))
                  (getProp result ''text'')) (getProp result ''response'')) (JStr [])))"

definition summarizeConversation ::
  "runtime \<Rightarrow> RagService \<Rightarrow> string \<Rightarrow> string \<Rightarrow> string \<Rightarrow> trace \<Rightarrow> (error + jsval) \<times> trace" where
  "summarizeConversation rt this userId conversationHistoryText promptTemplate tr =
     (case ragApplication this of
        None \<Rightarrow> (Inl (Error ''RAG Application not initialized''), tr)
      | Some ragApplication_query \<Rightarrow>
          (let filledPrompt =
                 String_replace rt (String_replace rt promptTemplate ''{{userId}}'' userId)
                   ''{{conversationHistoryText}}'' conversationHistoryText
           in case call (RagQuery filledPrompt) (ragApplication_query filledPrompt) tr of
                (Inl e, tr1) \<Rightarrow> (Inr (JStr ''Error performing summarization.''), tr1)
              | (Inr result, tr1) \<Rightarrow>
                  (case extractOutput result of
                     Inl e \<Rightarrow> (Inr (JStr ''Error performing summarization.''), tr1)
                   | Inr summary \<Rightarrow> (Inr summary, tr1))))"

section \<open>MemoryService\<close>

text \<open>\<open>nl\<close> is the \<open>"\n"\<close> of the source's string literals.\<close>

abbreviation nl :: string where
  "nl \<equiv> [CHR 0x0A]"

text \<open>\<open>conversationData && conversationData.entries ? conversationData.entries : []\<close>\<close>

definition entriesOf :: "conversation option \<Rightarrow> string entry list" where
  "entriesOf conversationData =
     (case conversationData of
        None \<Rightarrow> []
      | Some c \<Rightarrow> (case entries c of None \<Rightarrow> [] | Some es \<Rightarrow> es))"

text \<open>\<open>turn => `${turn.role}: ${turn.content}`\<close>\<close>

definition renderTurn :: "string entry \<Rightarrow> string" where
  "renderTurn turn = role turn @ '': '' @ content turn"

definition memoryKey :: "string \<Rightarrow> string" where
  "memoryKey userId = ''memory:'' @ userId @ '':last_summary''"

definition getConversationMemory ::
  "MemoryService \<Rightarrow> string \<Rightarrow> trace \<Rightarrow> (error + jsval) \<times> trace" where
  "getConversationMemory this userId tr =
     (case mongoStore this of
        None \<Rightarrow> (Inr (JStr []), tr)
      | Some store \<Rightarrow>
          (let memoryKeyForLastSummary = memoryKey userId in
           case call (LoaderCustomGet memoryKeyForLastSummary)
                  (loaderCustomGet store memoryKeyForLastSummary) tr of
             (Inl memoryGetError, tr1) \<Rightarrow> (Inr (JStr []), tr1)
           | (Inr lastSummaryMemory, tr1) \<Rightarrow>
               if truthy lastSummaryMemory \<and> truthy (getProp lastSummaryMemory ''text'')
               then (Inr (getProp lastSummaryMemory ''text''), tr1)
               else (Inr (JStr []), tr1)))"

definition localConversation :: "string \<Rightarrow> conversation" where
  "localConversation userId = \<lparr>conversationId = userId, entries = Some []\<rparr>"

definition getConversationHistory ::
  "MemoryService \<Rightarrow> string \<Rightarrow> trace \<Rightarrow> (error + conversation option) \<times> trace" where
  "getConversationHistory this userId tr =
     (case mongoStore this of
        None \<Rightarrow> (Inr (Some (localConversation userId)), tr)
      | Some store \<Rightarrow>
          (case call (HasConversation userId) (hasConversation store userId) tr of
             (Inl error, tr1) \<Rightarrow> (Inr (Some (localConversation userId)), tr1)
           | (Inr conversationExists, tr1) \<Rightarrow>
               if conversationExists then
                 (case call (GetConversation userId) (getConversation store userId) tr1 of
                    (Inl error, tr2) \<Rightarrow> (Inr (Some (localConversation userId)), tr2)
                  | (Inr conversationData, tr2) \<Rightarrow> (Inr conversationData, tr2))
               else
                 (case addConversation store of
                    None \<Rightarrow> (Inr (Some (localConversation userId)), tr1)
                  | Some addConversation' \<Rightarrow>
                      (case call (AddConversation userId) (addConversation' userId) tr1 of
                         (Inl error, tr2) \<Rightarrow> (Inr (Some (localConversation userId)), tr2)
                       | (Inr u, tr2) \<Rightarrow>
                           (case call (GetConversation userId) (getConversation store userId) tr2 of
                              (Inl error, tr3) \<Rightarrow> (Inr (Some (localConversation userId)), tr3)
                            | (Inr conversationData, tr3) \<Rightarrow>
                                (case conversationData of
                                   None \<Rightarrow> (Inr (Some (localConversation userId)), tr3)
                                 | Some c \<Rightarrow> (Inr (Some c), tr3)))))))"

definition addConversationEntries ::
  "runtime \<Rightarrow> MemoryService \<Rightarrow> string \<Rightarrow> jsval \<Rightarrow> jsval \<Rightarrow> trace \<Rightarrow> (error + bool) \<times> trace" where
  "addConversationEntries rt this userId userQuery botResponse tr =
     (case mongoStore this of
        None \<Rightarrow> (Inr False, tr)
      | Some store \<Rightarrow>
          (case addEntryToConversation store of
             None \<Rightarrow> (Inr False, tr)
           | Some addEntryToConversation' \<Rightarrow>
               (let userTurn = \<lparr>role = ''User'', content = userQuery, timestamp = Date_now rt tr\<rparr> in
                case call (AddEntryToConversation userId userTurn)
                       (addEntryToConversation' userId userTurn) tr of
                  (Inl error, tr1) \<Rightarrow> (Inr False, tr1)
                | (Inr u, tr1) \<Rightarrow>
                    (let botTurn = \<lparr>role = ''Bot'', content = botResponse, timestamp = Date_now rt tr1\<rparr> in
                     case call (AddEntryToConversation userId botTurn)
                            (addEntryToConversation' userId botTurn) tr1 of
                       (Inl error, tr2) \<Rightarrow> (Inr False, tr2)
                     | (Inr u', tr2) \<Rightarrow> (Inr True, tr2)))))"

text \<open>
  The guard \<open>summary && !summary.startsWith("Error") && !summary.startsWith("Could not
  summarize")\<close>. A truthy summary that is not a string has no \<open>startsWith\<close>: the call
  throws a TypeError, which the enclosing \<open>catch\<close> turns into \<open>return false\<close>.
\<close>

definition summaryAccepted :: "jsval \<Rightarrow> error + bool" where
  "summaryAccepted summary =
     (if \<not> truthy summary then Inr False
      else case summary of
             JStr s \<Rightarrow> Inr (\<not> startsWith s ''Error'' \<and> \<not> startsWith s ''Could not summarize'')
           | _ \<Rightarrow> Inl (Error ''summary.startsWith is not a function''))"

definition summaryDoc :: "jsval \<Rightarrow> nat \<Rightarrow> jsval" where
  "summaryDoc summary now =
     JObj [(''text'', summary), (''type'', JStr ''conversation_summary''), (''timestamp'', JDate now)]"

definition summarizeAndStoreMemory ::
  "runtime \<Rightarrow> MemoryService \<Rightarrow> string \<Rightarrow> RagService \<Rightarrow> string \<Rightarrow> trace \<Rightarrow> (error + bool) \<times> trace" where
  "summarizeAndStoreMemory rt this userId ragService promptTemplate tr =
     (case mongoStore this of
        None \<Rightarrow> (Inr False, tr)
      | Some store \<Rightarrow>
          (case call (GetConversation userId) (getConversation store userId) tr of
             (Inl error, tr1) \<Rightarrow> (Inr False, tr1)
           | (Inr conversationData, tr1) \<Rightarrow>
               (let historyEntries = entriesOf conversationData in
                if length historyEntries > 0 \<and> length historyEntries mod 10 = 0 then
                  (let historyTextForSummary = join (map renderTurn historyEntries) nl in
                   case summarizeConversation rt ragService userId historyTextForSummary promptTemplate tr1 of
                     (Inl error, tr2) \<Rightarrow> (Inr False, tr2)
                   | (Inr summary, tr2) \<Rightarrow>
                       (case summaryAccepted summary of
                          Inl error \<Rightarrow> (Inr False, tr2)
                        | Inr False \<Rightarrow> (Inr False, tr2)
                        | Inr True \<Rightarrow>
                            (let memoryKeyForLastSummary = memoryKey userId in
                             case loaderCustomSet store of
                               None \<Rightarrow> (Inr False, tr2)
                             | Some loaderCustomSet' \<Rightarrow>
                                 (let doc = summaryDoc summary (Date_now rt tr2) in
                                  case call (LoaderCustomSet userId memoryKeyForLastSummary doc)
                                         (loaderCustomSet' userId memoryKeyForLastSummary doc) tr2 of
                                    (Inl error, tr3) \<Rightarrow> (Inr False, tr3)
                                  | (Inr u, tr3) \<Rightarrow> (Inr True, tr3)))))
                else (Inr False, tr1))))"

section \<open>The code-fence pattern\<close>

text \<open>
  The regular expression \<^verbatim>\<open>/```(?:json)?\s*([\s\S]*?)```/\<close> is a sequence of six kinds of
  items, matched by backtracking as the runtime does: a literal, an optional literal
  (present first), a greedy star and a lazy star of a character class, and the opening and
  closing of the capture group. \<open>rx_run\<close> matches the items at the start of the input and
  returns the text of the group; \<open>capturing\<close> tells whether the group is open and
  \<open>captured\<close> is its text so far.
\<close>

datatype rx =
    Lit string
  | OptLit string
  | StarGreedy "char \<Rightarrow> bool"
  | StarLazy "char \<Rightarrow> bool"
  | GroupOpen
  | GroupClose

fun rx_run :: "rx list \<Rightarrow> string \<Rightarrow> bool \<Rightarrow> string \<Rightarrow> string option" where
  "rx_run [] s capturing captured = Some captured"
| "rx_run (Lit l # k) s capturing captured =
     (if startsWith s l
      then rx_run k (drop (length l) s) capturing (if capturing then captured @ l else captured)
      else None)"
| "rx_run (OptLit l # k) s capturing captured =
     (if startsWith s l
      then (case rx_run k (drop (length l) s) capturing (if capturing then captured @ l else captured) of
              Some r \<Rightarrow> Some r
            | None \<Rightarrow> rx_run k s capturing captured)
      else rx_run k s capturing captured)"
| "rx_run (StarGreedy cls # k) [] capturing captured = rx_run k [] capturing captured"
| "rx_run (StarGreedy cls # k) (x # xs) capturing captured =
     (if cls x
      then (case rx_run (StarGreedy cls # k) xs capturing (if capturing then captured @ [x] else captured) of
              Some r \<Rightarrow> Some r
            | None \<Rightarrow> rx_run k (x # xs) capturing captured)
      else rx_run k (x # xs) capturing captured)"
| "rx_run (StarLazy cls # k) [] capturing captured = rx_run k [] capturing captured"
| "rx_run (StarLazy cls # k) (x # xs) capturing captured =
     (case rx_run k (x # xs) capturing captured of
        Some r \<Rightarrow> Some r
      | None \<Rightarrow>
          if cls x
          then rx_run (StarLazy cls # k) xs capturing (if capturing then captured @ [x] else captured)
          else None)"
| "rx_run (GroupOpen # k) s capturing captured = rx_run k s True []"
| "rx_run (GroupClose # k) s capturing captured = rx_run k s False captured"

text \<open>
  \<open>s.match(re)\<close> for a pattern without the global flag: the match at the leftmost
  position where one exists; the result is element \<open>[1]\<close> of the match array, \<open>None\<close> when
  \<open>match\<close> returns \<open>null\<close>.
\<close>

fun rx_match :: "rx list \<Rightarrow> string \<Rightarrow> string option" where
  "rx_match re [] = rx_run re [] False []"
| "rx_match re (x # xs) =
     (case rx_run re (x # xs) False [] of
        Some g \<Rightarrow> Some g
      | None \<Rightarrow> rx_match re xs)"

definition fence :: string where
  "fence = [CHR 0x60, CHR 0x60, CHR 0x60]"

definition codeFencePattern :: "rx list" where
  "codeFencePattern =
     [Lit fence, OptLit ''json'', StarGreedy isWhiteSpace,
      GroupOpen, StarLazy (\<lambda>c. True), GroupClose, Lit fence]"

text \<open>The text handed to \<open>JSON.parse\<close>.\<close>

definition cleanedOutput :: "string \<Rightarrow> string" where
  "cleanedOutput llmOutputString =
     (if includesStr llmOutputString fence then
        (case rx_match codeFencePattern llmOutputString of
           Some group1 \<Rightarrow> if group1 \<noteq> [] then trim group1 else llmOutputString
         | None \<Rightarrow> llmOutputString)
      else llmOutputString)"



section \<open>The product catalogue\<close>

text \<open>
  \<open>db\<close> is the module variable of \<open>db.mjs\<close>: \<open>None\<close> before \<open>initDatabase\<close>, afterwards the
  catalogue's lookup by a list of SKUs.
\<close>

definition getProductsBySKUs ::
  "(jsval list \<Rightarrow> trace \<Rightarrow> error + jsval list) option \<Rightarrow> jsval \<Rightarrow> trace \<Rightarrow> (error + jsval list) \<times> trace" where
  "getProductsBySKUs db skus tr =
     (case db of
        None \<Rightarrow> (Inr [], tr)
      | Some productsFind \<Rightarrow>
          (case skus of
             JArr xs \<Rightarrow>
               if length xs = 0 then (Inr [], tr)
               else (case call (ProductsFind xs) (productsFind xs) tr of
                       (Inl error, tr1) \<Rightarrow> (Inr [], tr1)
                     | (Inr products, tr1) \<Rightarrow> (Inr products, tr1))
           | _ \<Rightarrow> (Inr [], tr)))"

section \<open>The chat controller\<close>

record JsonOutputInstructions =
  systemPreamble :: string
  answerFieldDetails :: string
  relatedProductsFieldDetails :: string
  closingInstruction :: string

record PromptConfig =
  jsonOutputInstructions :: JsonOutputInstructions
  summarizationInstruction :: string

text \<open>
  The request. \<open>req.body.query\<close> and \<open>req.body.question\<close> are whatever JSON value the body
  carries (\<open>undefined\<close> when absent): the handler tests them for truthiness only.
  \<open>req.body.userId\<close>, \<open>req.query.userId\<close>, \<open>user.id\<close> and \<open>user.name\<close> are strings or absent,
  \<open>user.children\<close> is an array of JSON values or absent.
\<close>

record user =
  user_id :: "string option"
  user_name :: "string option"
  user_children :: "jsval list option"

record request =
  body_query :: jsval
  body_question :: jsval
  body_user :: "user option"
  body_userId :: "string option"
  query_userId :: "string option"

record response =
  status :: nat
  body :: jsval

text \<open>The modules the controller imports.\<close>

record app =
  ragService :: RagService
  cacheService :: CacheService
  memoryService :: MemoryService
  promptConfig :: "PromptConfig option"
  db :: "(jsval list \<Rightarrow> trace \<Rightarrow> error + jsval list) option"
  jsRuntime :: runtime

text \<open>\<open>a || b\<close> on optional strings: an absent and an empty string are falsy.\<close>

definition truthyStr :: "string option \<Rightarrow> bool" where
  "truthyStr a = (case a of None \<Rightarrow> False | Some s \<Rightarrow> s \<noteq> [])"

definition orStr :: "string option \<Rightarrow> string option \<Rightarrow> string option" where
  "orStr a b = (if truthyStr a then a else b)"

definition orDefault :: "string option \<Rightarrow> string \<Rightarrow> string" where
  "orDefault a d = (case a of None \<Rightarrow> d | Some s \<Rightarrow> if s \<noteq> [] then s else d)"

text \<open>One line of the profile per child; \<open>child.name\<close> of a \<open>null\<close> child throws.\<close>

definition childLine :: "runtime \<Rightarrow> jsval \<Rightarrow> error + string" where
  "childLine r child =
     (if isNullish child then Inl (Error ''Cannot read properties of null or undefined'')
      else
        (case ToString r (orJs (getProp child ''name'') (JStr [])) of
           Inl e \<Rightarrow> Inl e
         | Inr name \<Rightarrow>
        (case ToString r (orJs (getProp child ''age'') (JStr [])) of
           Inl e \<Rightarrow> Inl e
         | Inr age \<Rightarrow>
        (case ToString r (orJs (getProp child ''gender'') (JStr [])) of
           Inl e \<Rightarrow> Inl e
         | Inr gender \<Rightarrow>
        (case ToString r (orJs (getProp child ''birthday'') (JStr [])) of
           Inl e \<Rightarrow> Inl e
         | Inr birthday \<Rightarrow>
             Inr (''  - Name: '' @ name @ '', Age: '' @ age @ '', Gender: '' @ gender
                  @ '', Birthday: '' @ birthday @ nl))))))"

fun childLines :: "runtime \<Rightarrow> jsval list \<Rightarrow> error + string" where
  "childLines r [] = Inr []"
| "childLines r (child # children) =
     (case childLine r child of
        Inl e \<Rightarrow> Inl e
      | Inr line \<Rightarrow>
          (case childLines r children of
             Inl e \<Rightarrow> Inl e
           | Inr lines \<Rightarrow> Inr (line @ lines)))"

definition profileSection :: "runtime \<Rightarrow> string \<Rightarrow> jsval list \<Rightarrow> error + string" where
  "profileSection r userName children =
     (if userName \<noteq> [] \<or> length children > 0 then
        (case (if length children > 0
               then (case childLines r children of
                       Inl e \<Rightarrow> Inl e
                     | Inr lines \<Rightarrow> Inr (''- Children:'' @ nl @ lines))
               else Inr []) of
           Inl e \<Rightarrow> Inl e
         | Inr childrenPart \<Rightarrow>
             Inr (''User profile:'' @ nl
                  @ (if userName \<noteq> [] then ''- Name: '' @ userName @ nl else [])
                  @ childrenPart @ nl))
      else Inr [])"

text \<open>
  \<open>longTermMemoryContext && longTermMemoryContext.trim() !== ""\<close>: a truthy context that is
  not a string has no \<open>trim\<close>.
\<close>

definition memorySection :: "string \<Rightarrow> jsval \<Rightarrow> error + string" where
  "memorySection userId longTermMemoryContext =
     (if \<not> truthy longTermMemoryContext then Inr []
      else case longTermMemoryContext of
             JStr m \<Rightarrow>
               Inr (if trim m \<noteq> []
                    then ''Relevant past information for '' @ userId @ '':'' @ nl @ m @ nl @ nl
                    else [])
           | _ \<Rightarrow> Inl (Error ''longTermMemoryContext.trim is not a function''))"

text \<open>The prompt up to the conversation history (steps 2 and 3 of the handler).\<close>

definition promptHead ::
  "runtime \<Rightarrow> PromptConfig \<Rightarrow> string \<Rightarrow> string \<Rightarrow> jsval list \<Rightarrow> jsval \<Rightarrow> error + string" where
  "promptHead r config userId userName children longTermMemoryContext =
     (let instr = jsonOutputInstructions config in
      case profileSection r userName children of
        Inl e \<Rightarrow> Inl e
      | Inr profile \<Rightarrow>
          (case memorySection userId longTermMemoryContext of
             Inl e \<Rightarrow> Inl e
           | Inr memory \<Rightarrow>
               Inr (systemPreamble instr @ nl @ nl @ answerFieldDetails instr @ nl @ nl
                    @ relatedProductsFieldDetails instr @ nl @ nl @ profile @ memory)))"

text \<open>Step 4: the window of the last ten turns and its section of the prompt.\<close>

definition limitedHistoryEntries :: "string entry list \<Rightarrow> string entry list" where
  "limitedHistoryEntries currentEntries = slice currentEntries (- 10)"

definition shortTermHistoryText :: "string entry list \<Rightarrow> string" where
  "shortTermHistoryText currentEntries = join (map renderTurn (limitedHistoryEntries currentEntries)) nl"

definition historySection :: "string entry list \<Rightarrow> string" where
  "historySection currentEntries =
     (if shortTermHistoryText currentEntries \<noteq> []
      then ''Current conversation history:'' @ nl @ shortTermHistoryText currentEntries @ nl @ nl
      else [])"

text \<open>The whole prompt; the query is converted to a string by the template literal.\<close>

definition promptForRAG ::
  "runtime \<Rightarrow> string \<Rightarrow> PromptConfig \<Rightarrow> string entry list \<Rightarrow> jsval \<Rightarrow> error + string" where
  "promptForRAG r head config currentEntries userQuery =
     (case ToString r userQuery of
        Inl e \<Rightarrow> Inl e
      | Inr queryText \<Rightarrow>
          Inr (head @ historySection currentEntries
               @ ''User's current query: '' @ queryText @ nl @ nl
               @ closingInstruction (jsonOutputInstructions config)))"

definition userMetadataForCacheKey :: "string \<Rightarrow> jsval list \<Rightarrow> jsval" where
  "userMetadataForCacheKey userName children =
     JObj [(''name'', JStr userName), (''children'', JArr children)]"

text \<open>
  Step 5: \<open>Promise.race([ragService.query(promptForRAG), timeout])\<close>. The query is started;
  the race is lost to the timer when \<open>timeout_first\<close> says so.
\<close>

definition queryRAG :: "runtime \<Rightarrow> RagService \<Rightarrow> string \<Rightarrow> trace \<Rightarrow> (error + jsval) \<times> trace" where
  "queryRAG r rag prompt tr =
     (case RagService_query rag prompt tr of
        (result, tr1) \<Rightarrow>
          (if timeout_first r tr then Inl (Error ''Request timed out after 15 seconds'') else result,
           tr1))"

text \<open>
  Steps 1 to 5 of the \<open>try\<close> block end either with a cache hit or with the output extracted
  from the LLM result. The prompt is logged as the string it is, and the whole result
  through \<open>JSON.stringify\<close>, which does not throw on these values. The last statement of
  step 5 logs the extracted output in a template literal, which converts it to a string:
  when the conversion throws, the outer \<open>catch\<close> takes over.
\<close>

datatype outcome = CacheHit jsval | LlmOutput jsval

definition retrieveOutput ::
  "app \<Rightarrow> PromptConfig \<Rightarrow> string \<Rightarrow> jsval \<Rightarrow> string \<Rightarrow> jsval list \<Rightarrow> trace \<Rightarrow> (error + outcome) \<times> trace" where
  "retrieveOutput a config userId userQuery userName children tr =
     (case getCachedResult (jsRuntime a) (cacheService a) userId userQuery
             (userMetadataForCacheKey userName children) tr of
        (Inl e, tr1) \<Rightarrow> (Inl e, tr1)
      | (Inr cachedResult, tr1) \<Rightarrow>
          if truthy cachedResult then (Inr (CacheHit cachedResult), tr1)
          else
            (case getConversationMemory (memoryService a) userId tr1 of
               (Inl e, tr2) \<Rightarrow> (Inl e, tr2)
             | (Inr longTermMemoryContext, tr2) \<Rightarrow>
                 (case promptHead (jsRuntime a) config userId userName children longTermMemoryContext of
                    Inl e \<Rightarrow> (Inl e, tr2)
                  | Inr head \<Rightarrow>
                      (case getConversationHistory (memoryService a) userId tr2 of
                         (Inl e, tr3) \<Rightarrow> (Inl e, tr3)
                       | (Inr conversationData, tr3) \<Rightarrow>
                           (case promptForRAG (jsRuntime a) head config (entriesOf conversationData)
                                   userQuery of
                              Inl e \<Rightarrow> (Inl e, tr3)
                            | Inr prompt \<Rightarrow>
                                (case queryRAG (jsRuntime a) (ragService a) prompt tr3 of
                                   (Inl e, tr4) \<Rightarrow> (Inl e, tr4)
                                 | (Inr result, tr4) \<Rightarrow>
                                     (case extractOutput result of
                                        Inl e \<Rightarrow> (Inl e, tr4)
                                      | Inr llmOutputString \<Rightarrow>
                                          (case ToString (jsRuntime a) llmOutputString of
                                             Inl e \<Rightarrow> (Inl e, tr4)
                                           | Inr logged \<Rightarrow>
                                               (Inr (LlmOutput llmOutputString), tr4)))))))))"

text \<open>
  Step 6: parsing, with the fallback of the inner \<open>catch\<close>. The \<open>catch\<close> block logs the
  output in a template literal and builds the fallback answer in another: an exception of
  either conversion leaves the block for the outer \<open>catch\<close>.
\<close>

definition fallbackPrefix :: string where
  "fallbackPrefix =
     ''I had a little trouble formatting my response perfectly. Here's the main information: ''"

definition fallbackResponse :: "runtime \<Rightarrow> jsval \<Rightarrow> error + jsval" where
  "fallbackResponse r llmOutputString =
     (case ToString r llmOutputString of
        Inl e \<Rightarrow> Inl e
      | Inr logged \<Rightarrow>
          (case ToString r (orJs llmOutputString (JStr ''Not available'')) of
             Inl e \<Rightarrow> Inl e
           | Inr raw \<Rightarrow>
               Inr (JObj [(''answer'', JStr (fallbackPrefix @ raw)), (''relatedProducts'', JArr [])])))"

text \<open>\<open>sku => typeof sku === 'string' ? sku : String(sku)\<close>, and the \<open>map\<close> over the array.\<close>

definition coerceSku :: "runtime \<Rightarrow> jsval \<Rightarrow> error + jsval" where
  "coerceSku r sku =
     (if isString sku then Inr sku
      else case ToString r sku of
             Inl e \<Rightarrow> Inl e
           | Inr s \<Rightarrow> Inr (JStr s))"

fun coerceSkus :: "runtime \<Rightarrow> jsval list \<Rightarrow> error + jsval list" where
  "coerceSkus r [] = Inr []"
| "coerceSkus r (sku # rest) =
     (case coerceSku r sku of
        Inl e \<Rightarrow> Inl e
      | Inr s \<Rightarrow>
          (case coerceSkus r rest of
             Inl e \<Rightarrow> Inl e
           | Inr ss \<Rightarrow> Inr (s # ss)))"

text \<open>
  The inner \<open>try\<close> and its \<open>catch\<close>. Every exception of the \<open>try\<close> block (the two thrown
  by the handler itself, a SyntaxError of \<open>JSON.parse\<close>, a TypeError of reading a property
  of \<open>null\<close> or of \<open>String(sku)\<close>) ends in the fallback.
\<close>

definition parseAndProcess ::
  "runtime \<Rightarrow> (jsval list \<Rightarrow> trace \<Rightarrow> error + jsval list) option \<Rightarrow> jsval \<Rightarrow> trace
     \<Rightarrow> (error + jsval) \<times> trace" where
  "parseAndProcess r d llmOutputString tr =
     (case llmOutputString of
        JStr s \<Rightarrow>
          if trim s = [] then (fallbackResponse r llmOutputString, tr)
          else
            (case JSON_parse r (cleanedOutput s) of
               None \<Rightarrow> (fallbackResponse r llmOutputString, tr)
             | Some botResponseJson \<Rightarrow>
                 if isNullish botResponseJson then (fallbackResponse r llmOutputString, tr)
                 else if \<not> isString (getProp botResponseJson ''answer'')
                         \<or> \<not> isArray (getProp botResponseJson ''relatedProducts'')
                 then (fallbackResponse r llmOutputString, tr)
                 else
                   (case coerceSkus r (case getProp botResponseJson ''relatedProducts'' of
                                         JArr xs \<Rightarrow> xs
                                       | _ \<Rightarrow> []) of
                      Inl e \<Rightarrow> (fallbackResponse r llmOutputString, tr)
                    | Inr skus \<Rightarrow>
                        (let botResponseJson1 = setProp botResponseJson ''relatedProducts'' (JArr skus)
                         in case getProductsBySKUs d (getProp botResponseJson1 ''relatedProducts'') tr of
                              (Inl e, tr1) \<Rightarrow> (fallbackResponse r llmOutputString, tr1)
                            | (Inr productDetails, tr1) \<Rightarrow>
                                (Inr (setProp botResponseJson1 ''relatedProducts'' (JArr productDetails)),
                                 tr1))))
      | _ \<Rightarrow> (fallbackResponse r llmOutputString, tr))"

text \<open>Step 7: the validity test, and what is saved when it passes.\<close>

definition marker :: string where
  "marker = ''I had a little trouble formatting my response''"

definition isValidResponse :: "jsval \<Rightarrow> bool" where
  "isValidResponse botResponseJson =
     (truthy botResponseJson \<and>
      (case getProp botResponseJson ''answer'' of
         JStr answer \<Rightarrow> trim answer \<noteq> [] \<and> \<not> includesStr answer marker
       | _ \<Rightarrow> False))"

definition saveConversationAndCache ::
  "app \<Rightarrow> PromptConfig \<Rightarrow> string \<Rightarrow> jsval \<Rightarrow> jsval \<Rightarrow> jsval \<Rightarrow> trace \<Rightarrow> (error + unit) \<times> trace" where
  "saveConversationAndCache a config userId userQuery userMetadata botResponseJson tr =
     (case addConversationEntries (jsRuntime a) (memoryService a) userId userQuery
             (getProp botResponseJson ''answer'') tr of
        (Inl e, tr1) \<Rightarrow> (Inl e, tr1)
      | (Inr added, tr1) \<Rightarrow>
          (case setCachedResult (jsRuntime a) (cacheService a) userId userQuery userMetadata
                  botResponseJson tr1 of
             (Inl e, tr2) \<Rightarrow> (Inl e, tr2)
           | (Inr cached, tr2) \<Rightarrow>
               (case summarizeAndStoreMemory (jsRuntime a) (memoryService a) userId (ragService a)
                       (summarizationInstruction config) tr2 of
                  (Inl e, tr3) \<Rightarrow> (Inl e, tr3)
                | (Inr summarized, tr3) \<Rightarrow> (Inr (), tr3))))"

text \<open>Steps 6 to 8.\<close>

definition respond ::
  "app \<Rightarrow> PromptConfig \<Rightarrow> string \<Rightarrow> jsval \<Rightarrow> jsval \<Rightarrow> jsval \<Rightarrow> trace \<Rightarrow> (error + response) \<times> trace" where
  "respond a config userId userQuery userMetadata llmOutputString tr =
     (case parseAndProcess (jsRuntime a) (db a) llmOutputString tr of
        (Inl e, tr1) \<Rightarrow> (Inl e, tr1)
      | (Inr botResponseJson, tr1) \<Rightarrow>
          if isValidResponse botResponseJson then
            (case saveConversationAndCache a config userId userQuery userMetadata botResponseJson tr1 of
               (Inl e, tr2) \<Rightarrow> (Inl e, tr2)
             | (Inr u, tr2) \<Rightarrow> (Inr \<lparr>status = 200, body = botResponseJson\<rparr>, tr2))
          else (Inr \<lparr>status = 200, body = botResponseJson\<rparr>, tr1))"

text \<open>The body of the outer \<open>try\<close>.\<close>

definition handleQueryTry ::
  "app \<Rightarrow> PromptConfig \<Rightarrow> string \<Rightarrow> jsval \<Rightarrow> string \<Rightarrow> jsval list \<Rightarrow> trace \<Rightarrow> (error + response) \<times> trace" where
  "handleQueryTry a config userId userQuery userName children tr =
     (case retrieveOutput a config userId userQuery userName children tr of
        (Inl e, tr1) \<Rightarrow> (Inl e, tr1)
      | (Inr (CacheHit cachedResult), tr1) \<Rightarrow> (Inr \<lparr>status = 200, body = cachedResult\<rparr>, tr1)
      | (Inr (LlmOutput llmOutputString), tr1) \<Rightarrow>
          respond a config userId userQuery (userMetadataForCacheKey userName children)
            llmOutputString tr1)"

text \<open>What the handler reads from the request.\<close>

text \<open>\<open>req.body.query || req.body.question\<close>\<close>

definition userQueryOf :: "request \<Rightarrow> jsval" where
  "userQueryOf req = orJs (body_query req) (body_question req)"

definition userOf :: "request \<Rightarrow> user" where
  "userOf req =
     (case body_user req of
        Some u \<Rightarrow> u
      | None \<Rightarrow> \<lparr>user_id = None, user_name = None, user_children = None\<rparr>)"

definition userIdOf :: "request \<Rightarrow> string" where
  "userIdOf req =
     orDefault (orStr (orStr (user_id (userOf req)) (body_userId req)) (query_userId req))
       ''default_user''"

definition userNameOf :: "request \<Rightarrow> string" where
  "userNameOf req = orDefault (user_name (userOf req)) []"

definition childrenOf :: "request \<Rightarrow> jsval list" where
  "childrenOf req = (case user_children (userOf req) of Some cs \<Rightarrow> cs | None \<Rightarrow> [])"

definition errorBody :: "string \<Rightarrow> jsval" where
  "errorBody answer = JObj [(''answer'', JStr answer), (''relatedProducts'', JArr [])]"

definition handleQuery :: "app \<Rightarrow> request \<Rightarrow> string \<Rightarrow> trace \<Rightarrow> response \<times> trace" where
  "handleQuery a req endpointName tr =
     (let userQuery = userQueryOf req in
      if \<not> truthy userQuery then (\<lparr>status = 400, body = errorBody ''Query is required.''\<rparr>, tr)
      else
        (case (ragApplication (ragService a), promptConfig a) of
           (Some ragApplication_query, Some config) \<Rightarrow>
             (case handleQueryTry a config (userIdOf req) userQuery (userNameOf req)
                     (childrenOf req) tr of
                (Inl error, tr1) \<Rightarrow>
                  (\<lparr>status = 500,
                    body = JObj [(''answer'', JStr ''Error processing your question''),
                                 (''relatedProducts'', JArr []),
                                 (''details'', JStr (message error))]\<rparr>, tr1)
              | (Inr res, tr1) \<Rightarrow> (res, tr1))
         | _ \<Rightarrow>
             (\<lparr>status = 503,
               body = errorBody (''RAG system or prompt configuration not initialized yet for ''
                                  @ endpointName)\<rparr>, tr)))"

section \<open>Auxiliary notions for the statements\<close>

text \<open>The events a call appends to the trace it starts from.\<close>

definition newEvents :: "trace \<Rightarrow> trace \<Rightarrow> trace" where
  "newEvents tr tr' = drop (length tr) tr'"

text \<open>The answer of a response, where it is a string.\<close>

definition answerOf :: "jsval \<Rightarrow> string" where
  "answerOf botResponseJson = (case getProp botResponseJson ''answer'' of JStr answer \<Rightarrow> answer | _ \<Rightarrow> [])"

text \<open>The calls that write to the store.\<close>

fun isLoaderCustomSet :: "event \<Rightarrow> bool" where
  "isLoaderCustomSet (LoaderCustomSet loaderId key doc) = True"
| "isLoaderCustomSet ev = False"

fun isAddEntry :: "event \<Rightarrow> bool" where
  "isAddEntry (AddEntryToConversation convId e) = True"
| "isAddEntry ev = False"

fun isCacheWrite :: "event \<Rightarrow> bool" where
  "isCacheWrite (LoaderCustomSet loaderId key doc) = startsWith key ''cache:''"
| "isCacheWrite ev = False"

text \<open>The lookups in the catalogue.\<close>

fun isProductsFind :: "event \<Rightarrow> bool" where
  "isProductsFind (ProductsFind skus) = True"
| "isProductsFind ev = False"

text \<open>An event is quiet when it neither appends a conversation entry nor writes custom data.\<close>

fun quiet :: "event \<Rightarrow> bool" where
  "quiet (LoaderCustomSet loaderId key doc) = False"
| "quiet (AddEntryToConversation convId e) = False"
| "quiet ev = True"

text \<open>
  A write of \<open>summarizeAndStoreMemory\<close> for \<open>userId\<close> is well formed when it stores, under the
  key of the last summary, a summary text that passed the guard.
\<close>

fun summaryWrite :: "string \<Rightarrow> event \<Rightarrow> bool" where
  "summaryWrite userId (LoaderCustomSet loaderId key doc) =
     (loaderId = userId \<and> key = memoryKey userId
      \<and> (case getProp doc ''text'' of
            JStr s \<Rightarrow> s \<noteq> [] \<and> \<not> startsWith s ''Error'' \<and> \<not> startsWith s ''Could not summarize''
          | _ \<Rightarrow> False)
      \<and> getProp doc ''type'' = JStr ''conversation_summary'')"
| "summaryWrite userId (AddEntryToConversation convId e) = False"
| "summaryWrite userId ev = True"

text \<open>
  A persisted event is free of the fallback when, if it appends a Bot turn, the turn's
  content is a string that does not contain the marker, and, if it writes under a cache
  key, the cached response passes the validity test.
\<close>

fun fallbackFree :: "event \<Rightarrow> bool" where
  "fallbackFree (AddEntryToConversation convId e) =
     (if role e = ''Bot''
      then (case content e of JStr answer \<Rightarrow> \<not> includesStr answer marker | _ \<Rightarrow> False)
      else True)"
| "fallbackFree (LoaderCustomSet loaderId key doc) =
     (if startsWith key ''cache:'' then isValidResponse (getProp doc ''data'') else True)"
| "fallbackFree ev = True"

text \<open>
  The request reaches step 6 of the handler with the LLM output \<open>llmOutputString\<close>, the
  trace being \<open>tr1\<close> at that point.
\<close>

definition receivesOutput ::
  "app \<Rightarrow> request \<Rightarrow> trace \<Rightarrow> jsval \<Rightarrow> PromptConfig \<Rightarrow> jsval \<Rightarrow> trace \<Rightarrow> bool" where
  "receivesOutput a req tr userQuery config llmOutputString tr1 =
     (userQueryOf req = userQuery \<and> truthy userQuery
      \<and> ragApplication (ragService a) \<noteq> None \<and> promptConfig a = Some config
      \<and> retrieveOutput a config (userIdOf req) userQuery (userNameOf req) (childrenOf req) tr
            = (Inr (LlmOutput llmOutputString), tr1))"





section \<open>A concrete environment\<close>

text \<open>
  Concrete stores, a concrete LLM and a concrete runtime, on which the theorems below are
  instantiated. The runtime's \<open>JSON.parse\<close> and \<open>JSON.stringify\<close> are given on the texts and
  values the examples use, where they agree with the real ones; \<open>replaceFirst\<close> is
  \<open>String.prototype.replace\<close> for a replacement without \<open>$\<close> patterns; the clock counts
  the calls made so far.
\<close>

definition exampleParse :: "string \<Rightarrow> jsval option" where
  \<open>exampleParse s =
     (if s = ''{"answer":"Try the stroller.","relatedProducts":["sku-1",7]}''
      then Some (JObj [(''answer'', JStr ''Try the stroller.''),
                       (''relatedProducts'', JArr [JStr ''sku-1'', JNum (Finite 7)])])
      else if s = ''{"answer":" ","relatedProducts":[]}''
      then Some (JObj [(''answer'', JStr '' ''), (''relatedProducts'', JArr [])])
      else if s = ''{"answer":"Try the stroller.","relatedProducts":[{"toString":1}]}''
      then Some (JObj [(''answer'', JStr ''Try the stroller.''),
                       (''relatedProducts'', JArr [JObj [(''toString'', JNum (Finite 1))]])])
      else None)\<close>

definition exampleStringify :: "jsval \<Rightarrow> string" where
  \<open>exampleStringify v =
     (if v = JObj [(''name'', JStr []), (''children'', JArr [])]
      then ''{"name":"","children":[]}''
      else if v = JBool False then ''false''
      else ''{}'')\<close>

fun replaceFirst :: "string \<Rightarrow> string \<Rightarrow> string \<Rightarrow> string" where
  "replaceFirst [] pat rep = (if pat = [] then rep else [])"
| "replaceFirst (c # cs) pat rep =
     (if startsWith (c # cs) pat then rep @ drop (length pat) (c # cs)
      else c # replaceFirst cs pat rep)"

definition exampleRuntime :: runtime where
  "exampleRuntime =
     \<lparr>JSON_parse = exampleParse,
      JSON_stringify = exampleStringify,
      Number_toString = (\<lambda>n. if n = Finite 7 then ''7'' else if n = Finite 42 then ''42'' else ''NaN''),
      Date_toString = (\<lambda>t. ''Thu Jan 01 1970''),
      String_replace = replaceFirst,
      Date_now = length,
      timeout_first = (\<lambda>tr. False)\<rparr>"

text \<open>A store that answers every read with the given document and conversation and accepts every write.\<close>

definition exampleStore :: "jsval \<Rightarrow> conversation option \<Rightarrow> MongoStore" where
  "exampleStore doc conv =
     \<lparr>loaderCustomGet = (\<lambda>key tr. Inr doc),
      loaderCustomSet = Some (\<lambda>loaderId key v tr. Inr ()),
      hasConversation = (\<lambda>userId tr. Inr (conv \<noteq> None)),
      getConversation = (\<lambda>userId tr. Inr conv),
      addConversation = Some (\<lambda>userId tr. Inr ()),
      addEntryToConversation = Some (\<lambda>userId e tr. Inr ())\<rparr>"

text \<open>A store whose every call fails.\<close>

definition brokenStore :: MongoStore where
  "brokenStore =
     \<lparr>loaderCustomGet = (\<lambda>key tr. Inl (Error ''connection lost'')),
      loaderCustomSet = Some (\<lambda>loaderId key v tr. Inl (Error ''connection lost'')),
      hasConversation = (\<lambda>userId tr. Inl (Error ''connection lost'')),
      getConversation = (\<lambda>userId tr. Inl (Error ''connection lost'')),
      addConversation = Some (\<lambda>userId tr. Inl (Error ''connection lost'')),
      addEntryToConversation = Some (\<lambda>userId e tr. Inl (Error ''connection lost''))\<rparr>"

definition exampleRag :: "jsval \<Rightarrow> RagService" where
  "exampleRag result = \<lparr>ragApplication = Some (\<lambda>prompt tr. Inr result)\<rparr>"

definition exampleConfig :: PromptConfig where
  "exampleConfig =
     \<lparr>jsonOutputInstructions =
        \<lparr>systemPreamble = ''Answer in JSON.'',
         answerFieldDetails = ''answer: text'',
         relatedProductsFieldDetails = ''relatedProducts: SKUs'',
         closingInstruction = ''JSON only.''\<rparr>,
      summarizationInstruction = ''Summarize for {{userId}}: {{conversationHistoryText}}''\<rparr>"

definition exampleRow :: "jsval \<Rightarrow> jsval" where
  "exampleRow sku = JObj [(''sku'', sku), (''name'', JStr ''Toddler Travel Stroller'')]"

definition exampleApp :: "jsval \<Rightarrow> MongoStore \<Rightarrow> app" where
  "exampleApp result store =
     \<lparr>ragService = exampleRag result,
      cacheService = \<lparr>mongoStore = Some store\<rparr>,
      memoryService = \<lparr>mongoStore = Some store\<rparr>,
      promptConfig = Some exampleConfig,
      db = Some (\<lambda>skus tr. Inr (map exampleRow skus)),
      jsRuntime = exampleRuntime\<rparr>"

definition exampleRequest :: request where
  "exampleRequest =
     \<lparr>body_query = JStr ''Any strollers?'', body_question = JUndefined, body_user = None,
      body_userId = Some ''u1'', query_userId = None\<rparr>"

definition turn :: "string \<Rightarrow> string \<Rightarrow> string entry" where
  "turn r c = \<lparr>role = r, content = c, timestamp = 0\<rparr>"

definition twoTurns :: conversation where
  "twoTurns = \<lparr>conversationId = ''u1'', entries = Some [turn ''User'' ''hi'', turn ''Bot'' ''hello'']\<rparr>"

definition tenTurns :: conversation where
  "tenTurns =
     \<lparr>conversationId = ''u1'',
      entries = Some [turn ''User'' ''q1'', turn ''Bot'' ''a1'', turn ''User'' ''q2'', turn ''Bot'' ''a2'',
                      turn ''User'' ''q3'', turn ''Bot'' ''a3'', turn ''User'' ''q4'', turn ''Bot'' ''a4'',
                      turn ''User'' ''q5'', turn ''Bot'' ''a5'']\<rparr>"

section \<open>Properties\<close>

subsection \<open>Unfolding the concrete environment\<close>

lemmas example_defs =
  exampleParse_def exampleStringify_def exampleRuntime_def exampleStore_def brokenStore_def
  exampleRag_def exampleConfig_def exampleRow_def exampleApp_def exampleRequest_def
  turn_def twoTurns_def tenTurns_def

subsection \<open>Traces\<close>

lemma newEvents_append: "newEvents tr (tr @ xs) = xs"
  by (simp add: newEvents_def)


subsection \<open>The cache key\<close>





subsection \<open>The cache read\<close>

text \<open>
  For a query that is a string \<open>getCachedResult\<close> never throws: it returns either \<open>null\<close> or
  the \<open>data\<close> field of the document the store returned for the cache key. It returns \<open>null\<close>
  when the service is not initialised (and then calls nothing), when the store's
  \<open>loaderCustomGet\<close> throws, and when the document is falsy or its \<open>data\<close> field is falsy;
  otherwise it returns the \<open>data\<close> field. A store error and a lookup that finds nothing
  give the caller the same result.
\<close>

lemma getCachedResult_string_query:
  fixes r this userId q userMetadata tr
  defines "key \<equiv> ''cache:'' @ userId @ '':'' @ q @ '':''
                   @ JSON_stringify r (if truthy userMetadata then userMetadata else JObj [])"
  shows
  "\<exists>v tr'. getCachedResult r this userId (JStr q) userMetadata tr = (Inr v, tr')
     \<and> (v = JNull \<or> (\<exists>store doc. mongoStore this = Some store
            \<and> loaderCustomGet store key tr = Inr doc \<and> v = getProp doc ''data''))
     \<and> (mongoStore this = None \<longrightarrow> v = JNull \<and> tr' = tr)
     \<and> (\<forall>store. mongoStore this = Some store \<longrightarrow>
           tr' = tr @ [LoaderCustomGet key]
           \<and> (case loaderCustomGet store key tr of
                 Inl cacheGetError \<Rightarrow> v = JNull
               | Inr doc \<Rightarrow>
                   v = (if truthy doc \<and> truthy (getProp doc ''data'') then getProp doc ''data'' else JNull)))
     \<and> (\<forall>store store' e. mongoStore this = Some store \<and> loaderCustomGet store key tr = Inl e
           \<and> loaderCustomGet store' key tr = Inr JNull
           \<longrightarrow> getCachedResult r \<lparr>mongoStore = Some store'\<rparr> userId (JStr q) userMetadata tr = (Inr v, tr'))"
  unfolding key_def
  by (auto simp: getCachedResult_def generateCacheKey_def orJs_def substring_def call_def Let_def
           split: option.splits sum.splits)

text \<open>
  For a query of any type the three ways to \<open>null\<close> are the same, as long as the key can be
  built: nothing but the log of a cache hit depends on the query being a string.
\<close>

lemma getCachedResult_miss:
  assumes "generateCacheKey r userId query userMetadata = Inr key"
  shows "(mongoStore this = None \<longrightarrow> getCachedResult r this userId query userMetadata tr = (Inr JNull, tr))
     \<and> (\<forall>store. mongoStore this = Some store
            \<and> (case loaderCustomGet store key tr of
                  Inl cacheGetError \<Rightarrow> True
                | Inr doc \<Rightarrow> \<not> (truthy doc \<and> truthy (getProp doc ''data'')))
          \<longrightarrow> getCachedResult r this userId query userMetadata tr = (Inr JNull, tr @ [LoaderCustomGet key]))"
  using assms by (auto simp: getCachedResult_def call_def split: option.splits sum.splits)

text \<open>
  C9. The property: \<open>getCachedResult\<close> is total, it returns the \<open>data\<close> field of the stored
  document or \<open>null\<close> for every input and never propagates an exception. The function is
  written for it (the store read is enclosed in a \<open>try\<close> whose \<open>catch\<close> returns \<open>null\<close>), and
  it holds for every string query, as shown above. It fails for a query that is not a
  string: the handler passes the query as the request carried it, the log of a cache hit
  calls \<open>query.substring(0, 30)\<close> outside the \<open>try\<close>, and a number has no such method. For the
  query \<open>42\<close> and a stored document with a truthy \<open>data\<close> field, \<open>getCachedResult\<close> throws a
  TypeError after the read, where for the string \<open>"42"\<close>, which has the same key, it returns
  the data.
\<close>

theorem getCachedResult_numeric_query_throws:
  \<open>getCachedResult exampleRuntime
      \<lparr>mongoStore = Some (exampleStore (JObj [(''data'', JStr ''cached''), (''timestamp'', JDate 3)]) None)\<rparr>
      ''u1'' (JNum (Finite 42)) JNull []
     = (Inl (Error ''query.substring is not a function''), [LoaderCustomGet ''cache:u1:42:{}''])
   \<and> getCachedResult exampleRuntime
      \<lparr>mongoStore = Some (exampleStore (JObj [(''data'', JStr ''cached''), (''timestamp'', JDate 3)]) None)\<rparr>
      ''u1'' (JStr ''42'') JNull []
     = (Inr (JStr ''cached''), [LoaderCustomGet ''cache:u1:42:{}''])\<close>
  by (simp add: getCachedResult_def generateCacheKey_def orJs_def substring_def call_def
        exampleRuntime_def exampleStringify_def exampleStore_def)

subsection \<open>Summarisation\<close>

lemma summaryAccepted_True:
  "summaryAccepted summary = Inr True \<longleftrightarrow>
     (\<exists>s. summary = JStr s \<and> s \<noteq> [] \<and> \<not> startsWith s ''Error'' \<and> \<not> startsWith s ''Could not summarize'')"
  by (cases summary) (auto simp: summaryAccepted_def)

lemma summarizeAndStoreMemory_cases:
  "summarizeAndStoreMemory r this userId rag tmpl tr =
     (case mongoStore this of
        None \<Rightarrow> (Inr False, tr)
      | Some store \<Rightarrow>
          (case getConversation store userId tr of
             Inl e \<Rightarrow> (Inr False, tr @ [GetConversation userId])
           | Inr cd \<Rightarrow>
               if 0 < length (entriesOf cd) \<and> length (entriesOf cd) mod 10 = 0 then
                 (case summarizeConversation r rag userId (join (map renderTurn (entriesOf cd)) nl) tmpl
                         (tr @ [GetConversation userId]) of
                    (Inl e, tr2) \<Rightarrow> (Inr False, tr2)
                  | (Inr summary, tr2) \<Rightarrow>
                      if summaryAccepted summary = Inr True then
                        (case loaderCustomSet store of
                           None \<Rightarrow> (Inr False, tr2)
                         | Some set' \<Rightarrow>
                             (Inr (set' userId (memoryKey userId) (summaryDoc summary (Date_now r tr2)) tr2 = Inr ()),
                              tr2 @ [LoaderCustomSet userId (memoryKey userId) (summaryDoc summary (Date_now r tr2))]))
                      else (Inr False, tr2))
               else (Inr False, tr @ [GetConversation userId])))"
  by (auto simp: summarizeAndStoreMemory_def call_def Let_def
           split: option.splits sum.splits bool.splits prod.splits)

lemma summarizeConversation_trace:
  "snd (summarizeConversation r rag userId h tmpl t) = t
   \<or> (\<exists>p. snd (summarizeConversation r rag userId h tmpl t) = t @ [RagQuery p])"
  by (auto simp: summarizeConversation_def call_def Let_def split: option.splits sum.splits)








lemma summarize_new_events:
  "\<exists>new. snd (summarizeAndStoreMemory r this userId rag tmpl tr) = tr @ new
         \<and> list_all (summaryWrite userId) new"
proof (cases "mongoStore this")
  case None
  then show ?thesis by (simp add: summarizeAndStoreMemory_cases)
next
  case (Some store)
  show ?thesis
  proof (cases "getConversation store userId tr")
    case (Inl e)
    with Some show ?thesis by (simp add: summarizeAndStoreMemory_cases)
  next
    case (Inr cd)
    let ?h = "join (map renderTurn (entriesOf cd)) nl"
    let ?tr1 = "tr @ [GetConversation userId]"
    obtain out tr2 where sc: "summarizeConversation r rag userId ?h tmpl ?tr1 = (out, tr2)"
      by (cases "summarizeConversation r rag userId ?h tmpl ?tr1") auto
    have tr2: "tr2 = ?tr1 \<or> (\<exists>p. tr2 = ?tr1 @ [RagQuery p])"
      using summarizeConversation_trace[of r rag userId ?h tmpl ?tr1] sc by simp
    show ?thesis
      using Some Inr sc tr2
      by (auto simp: summarizeAndStoreMemory_cases summaryAccepted_True summaryDoc_def
               split: sum.splits option.splits)
  qed
qed

text \<open>
  C10. Every \<open>loaderCustomSet\<close> call that \<open>summarizeAndStoreMemory\<close> makes writes, under the
  key \<open>memory:<userId>:last_summary\<close>, a document whose \<open>text\<close> is a non-empty string that
  starts neither with \<open>Error\<close> nor with \<open>Could not summarize\<close>; the function appends no
  conversation entry and only extends the trace. This holds although
  \<open>summarizeConversation\<close> returns \<open>Error performing summarization.\<close> when the LLM call
  fails: the guard rejects that placeholder, and a write of it would not be well formed.
\<close>

theorem stored_summary_never_error:
  "list_all (summaryWrite userId)
     (newEvents tr (snd (summarizeAndStoreMemory r this userId rag tmpl tr)))
   \<and> take (length tr) (snd (summarizeAndStoreMemory r this userId rag tmpl tr)) = tr
   \<and> (\<forall>ragApplication_query e.
         ragApplication rag = Some ragApplication_query
         \<and> ragApplication_query
              (String_replace r (String_replace r tmpl ''{{userId}}'' userId)
                 ''{{conversationHistoryText}}'' h) t = Inl e
         \<longrightarrow> fst (summarizeConversation r rag userId h tmpl t) = Inr (JStr ''Error performing summarization.''))
   \<and> summaryAccepted (JStr ''Error performing summarization.'') = Inr False
   \<and> \<not> summaryWrite userId
         (LoaderCustomSet userId (memoryKey userId) (summaryDoc (JStr ''Error performing summarization.'') now))"
proof -
  obtain new where new: "snd (summarizeAndStoreMemory r this userId rag tmpl tr) = tr @ new"
    "list_all (summaryWrite userId) new"
    using summarize_new_events by blast
  have "\<forall>ragApplication_query e.
         ragApplication rag = Some ragApplication_query
         \<and> ragApplication_query
              (String_replace r (String_replace r tmpl ''{{userId}}'' userId)
                 ''{{conversationHistoryText}}'' h) t = Inl e
         \<longrightarrow> fst (summarizeConversation r rag userId h tmpl t) = Inr (JStr ''Error performing summarization.'')"
    by (auto simp: summarizeConversation_def call_def Let_def)
  moreover have "summaryAccepted (JStr ''Error performing summarization.'') = Inr False"
    by (simp add: summaryAccepted_def)
  moreover have "\<not> summaryWrite userId
         (LoaderCustomSet userId (memoryKey userId) (summaryDoc (JStr ''Error performing summarization.'') now))"
    by (simp add: summaryDoc_def)
  ultimately show ?thesis using new by (simp add: newEvents_def)
qed

theorem stored_summary_never_error_witness:
  "list_all (summaryWrite ''u1'')
     (newEvents []
        (snd (summarizeAndStoreMemory exampleRuntime \<lparr>mongoStore = Some (exampleStore JNull (Some tenTurns))\<rparr>
                ''u1'' \<lparr>ragApplication = Some (\<lambda>prompt tr. Inl (Error ''overloaded''))\<rparr>
                ''Summarize for {{userId}}: {{conversationHistoryText}}'' [])))
   \<and> fst (summarizeConversation exampleRuntime \<lparr>ragApplication = Some (\<lambda>prompt tr. Inl (Error ''overloaded''))\<rparr>
            ''u1'' ''User: q1'' ''Summarize for {{userId}}: {{conversationHistoryText}}'' [])
       = Inr (JStr ''Error performing summarization.'')
   \<and> filter isLoaderCustomSet
        (snd (summarizeAndStoreMemory exampleRuntime \<lparr>mongoStore = Some (exampleStore JNull (Some tenTurns))\<rparr>
                ''u1'' \<lparr>ragApplication = Some (\<lambda>prompt tr. Inl (Error ''overloaded''))\<rparr>
                ''Summarize for {{userId}}: {{conversationHistoryText}}'' [])) = []"
proof -
  let ?rag = "\<lparr>ragApplication = Some (\<lambda>prompt tr. Inl (Error ''overloaded''))\<rparr>"
  have hyp: "ragApplication ?rag = Some (\<lambda>prompt tr. Inl (Error ''overloaded''))
      \<and> (\<lambda>prompt tr. Inl (Error ''overloaded''))
           (String_replace exampleRuntime
              (String_replace exampleRuntime ''Summarize for {{userId}}: {{conversationHistoryText}}''
                 ''{{userId}}'' ''u1'') ''{{conversationHistoryText}}'' ''User: q1'') []
         = Inl (Error ''overloaded'')"
    by simp
  note inst = stored_summary_never_error[of "''u1''" "[]" exampleRuntime
      "\<lparr>mongoStore = Some (exampleStore JNull (Some tenTurns))\<rparr>" ?rag
      "''Summarize for {{userId}}: {{conversationHistoryText}}''" "''User: q1''" "[]" 0]
  have a: "list_all (summaryWrite ''u1'')
     (newEvents []
        (snd (summarizeAndStoreMemory exampleRuntime \<lparr>mongoStore = Some (exampleStore JNull (Some tenTurns))\<rparr>
                ''u1'' ?rag ''Summarize for {{userId}}: {{conversationHistoryText}}'' [])))"
    using inst by blast
  have b: "fst (summarizeConversation exampleRuntime ?rag ''u1'' ''User: q1''
              ''Summarize for {{userId}}: {{conversationHistoryText}}'' [])
       = Inr (JStr ''Error performing summarization.'')"
    using inst[THEN conjunct2, THEN conjunct2, THEN conjunct1, rule_format, OF hyp] .
  have c: "filter isLoaderCustomSet
        (snd (summarizeAndStoreMemory exampleRuntime \<lparr>mongoStore = Some (exampleStore JNull (Some tenTurns))\<rparr>
                ''u1'' ?rag ''Summarize for {{userId}}: {{conversationHistoryText}}'' [])) = []"
    by (simp add: example_defs summarizeAndStoreMemory_def summarizeConversation_def call_def
          entriesOf_def summaryAccepted_def Let_def)
  show ?thesis using a b c by blast
qed

subsection \<open>The code fence\<close>





























subsection \<open>The handler: auxiliary facts\<close>





lemma extractOutput_truthy: "extractOutput result = Inr llm \<Longrightarrow> truthy llm \<or> llm = JStr []"
  by (auto simp: extractOutput_def orJs_def split: if_splits)

lemma retrieveOutput_truthy:
  "retrieveOutput a config userId userQuery userName children tr = (Inr (LlmOutput llm), tr1)
     \<Longrightarrow> truthy llm \<or> llm = JStr []"
  by (auto simp: retrieveOutput_def dest: extractOutput_truthy split: prod.splits sum.splits if_splits)

text \<open>
  When the handler reaches the parsing step, the two conversions on the way, of the query
  in the prompt and of the output in the log, have succeeded.
\<close>

lemma retrieveOutput_logged:
  "retrieveOutput a config userId userQuery userName children tr = (Inr (LlmOutput llm), tr1)
     \<Longrightarrow> \<exists>logged. ToString (jsRuntime a) llm = Inr logged"
  by (auto simp: retrieveOutput_def split: prod.splits sum.splits if_splits)

lemma retrieveOutput_query:
  "retrieveOutput a config userId userQuery userName children tr = (Inr (LlmOutput llm), tr1)
     \<Longrightarrow> \<exists>queryText. ToString (jsRuntime a) userQuery = Inr queryText"
  by (auto simp: retrieveOutput_def promptForRAG_def split: prod.splits sum.splits if_splits)

lemma generateCacheKey_Inr:
  "ToString r query = Inr queryText \<Longrightarrow>
   generateCacheKey r userId query md
     = Inr (''cache:'' @ userId @ '':'' @ queryText @ '':'' @ JSON_stringify r (orJs md (JObj [])))"
  by (simp add: generateCacheKey_def)

lemma addConversationEntries_no_throw:
  "\<exists>b. fst (addConversationEntries r this userId userQuery botResponse tr) = Inr b"
  by (auto simp: addConversationEntries_def call_def Let_def split: option.splits sum.splits)

lemma setCachedResult_no_throw:
  "ToString r query = Inr queryText \<Longrightarrow>
   \<exists>b. fst (setCachedResult r this userId query md data tr) = Inr b"
  by (auto simp: setCachedResult_def generateCacheKey_Inr call_def Let_def split: option.splits sum.splits)

lemma summarizeAndStoreMemory_no_throw:
  "\<exists>b. fst (summarizeAndStoreMemory r this userId rag tmpl tr) = Inr b"
  by (auto simp: summarizeAndStoreMemory_def call_def Let_def split: option.splits sum.splits prod.splits bool.splits)

lemma saveConversationAndCache_no_throw:
  assumes "ToString (jsRuntime a) userQuery = Inr queryText"
  shows "\<exists>tr'. saveConversationAndCache a config userId userQuery md brj tr = (Inr (), tr')"
proof -
  obtain b1 t1 where 1: "addConversationEntries (jsRuntime a) (memoryService a) userId userQuery
                           (getProp brj ''answer'') tr = (Inr b1, t1)"
    using addConversationEntries_no_throw by (metis fst_conv surj_pair)
  obtain b2 t2 where 2: "setCachedResult (jsRuntime a) (cacheService a) userId userQuery md brj t1 = (Inr b2, t2)"
    using setCachedResult_no_throw[OF assms] by (metis fst_conv surj_pair)
  obtain b3 t3 where 3: "summarizeAndStoreMemory (jsRuntime a) (memoryService a) userId (ragService a) (summarizationInstruction config) t2 = (Inr b3, t3)"
    using summarizeAndStoreMemory_no_throw by (metis fst_conv surj_pair)
  show ?thesis by (simp add: saveConversationAndCache_def 1 2 3)
qed

lemma includesStr_startsWith: "startsWith s t \<Longrightarrow> includesStr s t"
  by (cases s; cases t) auto

lemma fallback_has_marker: "includesStr (fallbackPrefix @ x) marker"
  by (rule includesStr_startsWith) (simp add: fallbackPrefix_def marker_def)

lemma fallbackResponse_Inr:
  "fallbackResponse r llm = Inr fb \<Longrightarrow>
   \<exists>raw. fb = JObj [(''answer'', JStr (fallbackPrefix @ raw)), (''relatedProducts'', JArr [])]"
  by (auto simp: fallbackResponse_def split: sum.splits)

lemma fallback_invalid: "fallbackResponse r llm = Inr fb \<Longrightarrow> \<not> isValidResponse fb"
  by (auto simp: isValidResponse_def fallback_has_marker dest!: fallbackResponse_Inr)

lemma fallbackResponse_logged:
  assumes "ToString r llm = Inr logged" and "truthy llm \<or> llm = JStr []"
  shows "fallbackResponse r llm =
           Inr (JObj [(''answer'', JStr (fallbackPrefix @ (if llm = JStr [] then ''Not available'' else logged))),
                      (''relatedProducts'', JArr [])])"
  using assms by (auto simp: fallbackResponse_def orJs_def)

lemma respond_fallback:
  "parseAndProcess (jsRuntime a) (db a) llm tr = (fallbackResponse (jsRuntime a) llm, tr')
     \<Longrightarrow> fallbackResponse (jsRuntime a) llm = Inr fb
     \<Longrightarrow> respond a config userId userQuery md llm tr = (Inr \<lparr>status = 200, body = fb\<rparr>, tr')"
  by (simp add: respond_def fallback_invalid)

lemma parseAndProcess_fallback:
  assumes "\<not> isString llm \<or> llm = JStr []
           \<or> (\<exists>s. llm = JStr s \<and> (JSON_parse r (cleanedOutput s) = None
                 \<or> (\<exists>v. JSON_parse r (cleanedOutput s) = Some v
                       \<and> \<not> (isString (getProp v ''answer'') \<and> isArray (getProp v ''relatedProducts'')))))"
  shows "parseAndProcess r d llm tr = (fallbackResponse r llm, tr)"
proof (cases llm)
  case (JStr s)
  with assms show ?thesis
    by (cases "JSON_parse r (cleanedOutput s)"; cases "the (JSON_parse r (cleanedOutput s))")
       (auto simp: parseAndProcess_def trim_def)
qed (simp_all add: parseAndProcess_def)

lemma parseAndProcess_unconvertible:
  assumes "trim s \<noteq> []" and "JSON_parse r (cleanedOutput s) = Some v"
    and "isString (getProp v ''answer'')" and "getProp v ''relatedProducts'' = JArr xs"
    and "coerceSkus r xs = Inl e"
  shows "parseAndProcess r d (JStr s) tr = (fallbackResponse r (JStr s), tr)"
proof -
  have "\<not> isNullish v" using assms(3) by (cases v) auto
  then show ?thesis using assms by (simp add: parseAndProcess_def)
qed

lemmas handler_defs =
  handleQuery_def handleQueryTry_def retrieveOutput_def respond_def parseAndProcess_def
  saveConversationAndCache_def getCachedResult_def setCachedResult_def getConversationMemory_def
  getConversationHistory_def addConversationEntries_def summarizeAndStoreMemory_def
  summarizeConversation_def queryRAG_def RagService_query_def extractOutput_def
  getProductsBySKUs_def call_def generateCacheKey_def userMetadataForCacheKey_def promptHead_def
  profileSection_def memorySection_def promptForRAG_def historySection_def
  shortTermHistoryText_def limitedHistoryEntries_def slice_def renderTurn_def entriesOf_def
  localConversation_def userQueryOf_def userOf_def userIdOf_def userNameOf_def childrenOf_def
  errorBody_def truthyStr_def orStr_def orDefault_def orJs_def fallbackResponse_def
  fallbackPrefix_def coerceSku_def substring_def isValidResponse_def answerOf_def marker_def
  cleanedOutput_def
  memoryKey_def summaryAccepted_def summaryDoc_def trim_def isWhiteSpace_def fence_def Let_def

lemma handleQuery_reached:
  assumes "userQueryOf req = userQuery" and "truthy userQuery"
    and "ragApplication (ragService a) = Some ragApplication_query"
    and "promptConfig a = Some config"
    and "retrieveOutput a config (userIdOf req) userQuery (userNameOf req) (childrenOf req) tr
           = (Inr (LlmOutput llm), tr1)"
  shows "handleQuery a req endpointName tr =
           (case respond a config (userIdOf req) userQuery
                   (userMetadataForCacheKey (userNameOf req) (childrenOf req)) llm tr1 of
              (Inl error, tr2) \<Rightarrow>
                (\<lparr>status = 500,
                  body = JObj [(''answer'', JStr ''Error processing your question''),
                               (''relatedProducts'', JArr []),
                               (''details'', JStr (message error))]\<rparr>, tr2)
            | (Inr res, tr2) \<Rightarrow> (res, tr2))"
  using assms by (simp add: handleQuery_def handleQueryTry_def Let_def)

lemma truthy_data_object: "truthy (getProp doc k) \<Longrightarrow> truthy doc"
  by (cases doc) auto

lemma getProductsBySKUs_no_throw: "\<exists>rows tr'. getProductsBySKUs d skus tr = (Inr rows, tr')"
  by (cases skus) (auto simp: getProductsBySKUs_def call_def split: option.splits sum.splits)

lemma isString_getProp_object: "isString (getProp v k) \<Longrightarrow> \<exists>kvs. v = JObj kvs"
  by (cases v) auto

lemma getProp_setProp: "getProp (setProp (JObj kvs) k x) k = x"
  by (simp add: update_conv')

lemma getProp_setProp_other: "k' \<noteq> k \<Longrightarrow> getProp (setProp (JObj kvs) k x) k' = getProp (JObj kvs) k'"
  by (simp add: update_conv')

lemma respond_body:
  assumes "ToString (jsRuntime a) userQuery = Inr queryText"
    and "parseAndProcess (jsRuntime a) (db a) llm tr = (Inr brj, tr1)"
  shows "\<exists>tr'. respond a config userId userQuery md llm tr = (Inr \<lparr>status = 200, body = brj\<rparr>, tr')"
proof -
  obtain tr2 where s: "saveConversationAndCache a config userId userQuery md brj tr1 = (Inr (), tr2)"
    using saveConversationAndCache_no_throw[OF assms(1)] by blast
  show ?thesis by (simp add: respond_def assms(2) s)
qed

lemma parseAndProcess_parsed:
  assumes "trim s \<noteq> []" and "JSON_parse r (cleanedOutput s) = Some (JObj kvs)"
    and "isString (getProp (JObj kvs) ''answer'')"
    and "getProp (JObj kvs) ''relatedProducts'' = JArr xs"
    and "coerceSkus r xs = Inr skus"
    and "getProductsBySKUs d (JArr skus) tr = (Inr productDetails, tr')"
  shows "parseAndProcess r d (JStr s) tr =
           (Inr (setProp (setProp (JObj kvs) ''relatedProducts'' (JArr skus))
                   ''relatedProducts'' (JArr productDetails)), tr')"
  using assms by (simp add: parseAndProcess_def Let_def getProp_setProp del: getProp.simps setProp.simps)

text \<open>The coercion of the SKUs: it succeeds exactly when every conversion does.\<close>

lemma coerceSkus_Inr:
  "coerceSkus r xs = Inr skus \<Longrightarrow>
     length skus = length xs \<and> list_all isString skus
     \<and> (\<forall>i < length xs. coerceSku r (xs ! i) = Inr (skus ! i))"
proof (induction xs arbitrary: skus)
  case Nil
  then show ?case by simp
next
  case (Cons x xs)
  from Cons.prems obtain s ss where s: "coerceSku r x = Inr s" "coerceSkus r xs = Inr ss" "skus = s # ss"
    by (auto split: sum.splits)
  have "isString s" using s(1) by (auto simp: coerceSku_def split: if_splits sum.splits)
  then show ?case using Cons.IH[OF s(2)] s by (auto simp: nth_Cons split: nat.splits)
qed

lemma coerceSkus_Inl:
  "coerceSkus r xs = Inl e \<Longrightarrow> \<exists>x \<in> set xs. \<not> isString x \<and> ToString r x = Inl e"
  by (induction xs) (auto simp: coerceSku_def split: sum.splits if_splits)

lemma coerceSkus_convertible:
  "\<forall>x \<in> set xs. isString x \<or> (\<exists>s. ToString r x = Inr s) \<Longrightarrow> \<exists>skus. coerceSkus r xs = Inr skus"
  by (induction xs) (auto simp: coerceSku_def split: sum.splits)


lemma getProductsBySKUs_empty:
  "\<not> isArray skus \<or> skus = JArr [] \<or> d = None
     \<or> (\<exists>productsFind ys e. d = Some productsFind \<and> skus = JArr ys \<and> productsFind ys t = Inl e)
   \<Longrightarrow> fst (getProductsBySKUs d skus t) = Inr []"
  by (cases skus) (auto simp: getProductsBySKUs_def call_def split: option.splits sum.splits)

subsection \<open>The history window\<close>



subsection \<open>The cache hit\<close>

text \<open>
  When the query is a string and the cache lookup returns a document whose \<open>data\<close> field is
  truthy, \<open>handleQuery\<close> responds with exactly that data, and the lookup is the only
  external call it makes: no LLM query, no conversation entry, no summarisation and no
  cache write.
\<close>

lemma cache_hit_string_query:
  fixes a req q
  defines "key \<equiv> ''cache:'' @ userIdOf req @ '':'' @ q @ '':''
                   @ JSON_stringify (jsRuntime a) (userMetadataForCacheKey (userNameOf req) (childrenOf req))"
  assumes "userQueryOf req = JStr q" and "q \<noteq> []"
    and "ragApplication (ragService a) = Some ragApplication_query"
    and "promptConfig a = Some config"
    and "mongoStore (cacheService a) = Some store"
    and "loaderCustomGet store key tr = Inr doc"
    and "truthy (getProp doc ''data'')"
  shows "handleQuery a req endpointName tr
           = (\<lparr>status = 200, body = getProp doc ''data''\<rparr>, tr @ [LoaderCustomGet key])"
  using assms truthy_data_object[of doc "''data''"]
  by (simp add: handleQuery_def handleQueryTry_def retrieveOutput_def getCachedResult_def call_def
        generateCacheKey_def userMetadataForCacheKey_def orJs_def substring_def key_def)

text \<open>
  Whatever the type of the query, a cache hit is followed by no other external call: the
  handler answers after the one read.
\<close>

lemma cache_hit_no_other_call:
  assumes "truthy (userQueryOf req)"
    and "ragApplication (ragService a) = Some ragApplication_query"
    and "promptConfig a = Some config"
    and "mongoStore (cacheService a) = Some store"
    and "generateCacheKey (jsRuntime a) (userIdOf req) (userQueryOf req)
           (userMetadataForCacheKey (userNameOf req) (childrenOf req)) = Inr key"
    and "loaderCustomGet store key tr = Inr doc"
    and "truthy (getProp doc ''data'')"
  shows "snd (handleQuery a req endpointName tr) = tr @ [LoaderCustomGet key]"
  using assms truthy_data_object[of doc "''data''"]
  by (simp add: handleQuery_def handleQueryTry_def retrieveOutput_def getCachedResult_def call_def
        Let_def split: sum.splits)

text \<open>
  C5. The property: when the cache lookup returns a document with a truthy \<open>data\<close> field,
  \<open>handleQuery\<close> responds with exactly that data and makes no other external call. It
  holds for every string query, as shown above, and the second half holds for every query.
  The first half fails for a query that is not a string. The handler takes any truthy
  \<open>query\<close> of the request body and passes it on as it is; on a cache hit \<open>getCachedResult\<close>
  logs \<open>query.substring(0, 30)\<close>, which throws for such a query, and the handler answers 500
  instead of the stored data. The request \<open>{"query": 42, "userId": "u1"}\<close> is answered from
  the LLM when nothing is cached, and the response is written to the cache under the key
  of the query (third part below); the same request, repeated when the store returns what
  was written, is answered 500 (first part), where the request with the string \<open>"42"\<close>,
  which has the same key, is answered with the stored data (second part).
\<close>

theorem handleQuery_numeric_query_cache_hit:
  \<open>handleQuery
     (exampleApp (JObj [(''answer'', JStr ''{"answer":"Try the stroller.","relatedProducts":["sku-1",7]}'')])
        (exampleStore
           (JObj [(''data'',
                   JObj [(''answer'', JStr ''Try the stroller.''),
                         (''relatedProducts'',
                          JArr [JObj [(''sku'', JStr ''sku-1''), (''name'', JStr ''Toddler Travel Stroller'')],
                                JObj [(''sku'', JStr ''7''), (''name'', JStr ''Toddler Travel Stroller'')]])]),
                  (''timestamp'', JDate 8)])
           (Some twoTurns)))
     (exampleRequest\<lparr>body_query := JNum (Finite 42)\<rparr>) ''/ask'' []
   = (\<lparr>status = 500,
       body = JObj [(''answer'', JStr ''Error processing your question''),
                    (''relatedProducts'', JArr []),
                    (''details'', JStr ''query.substring is not a function'')]\<rparr>,
      [LoaderCustomGet ''cache:u1:42:{"name":"","children":[]}''])
   \<and> handleQuery
     (exampleApp (JObj [(''answer'', JStr ''{"answer":"Try the stroller.","relatedProducts":["sku-1",7]}'')])
        (exampleStore
           (JObj [(''data'',
                   JObj [(''answer'', JStr ''Try the stroller.''),
                         (''relatedProducts'',
                          JArr [JObj [(''sku'', JStr ''sku-1''), (''name'', JStr ''Toddler Travel Stroller'')],
                                JObj [(''sku'', JStr ''7''), (''name'', JStr ''Toddler Travel Stroller'')]])]),
                  (''timestamp'', JDate 8)])
           (Some twoTurns)))
     (exampleRequest\<lparr>body_query := JStr ''42''\<rparr>) ''/ask'' []
   = (\<lparr>status = 200,
       body = JObj [(''answer'', JStr ''Try the stroller.''),
                    (''relatedProducts'',
                     JArr [JObj [(''sku'', JStr ''sku-1''), (''name'', JStr ''Toddler Travel Stroller'')],
                           JObj [(''sku'', JStr ''7''), (''name'', JStr ''Toddler Travel Stroller'')]])]\<rparr>,
      [LoaderCustomGet ''cache:u1:42:{"name":"","children":[]}''])
   \<and> filter isCacheWrite
       (snd (handleQuery
          (exampleApp (JObj [(''answer'', JStr ''{"answer":"Try the stroller.","relatedProducts":["sku-1",7]}'')])
             (exampleStore JNull (Some twoTurns)))
          (exampleRequest\<lparr>body_query := JNum (Finite 42)\<rparr>) ''/ask'' []))
     = [LoaderCustomSet ''u1'' ''cache:u1:42:{"name":"","children":[]}''
          (JObj [(''data'',
                  JObj [(''answer'', JStr ''Try the stroller.''),
                        (''relatedProducts'',
                         JArr [JObj [(''sku'', JStr ''sku-1''), (''name'', JStr ''Toddler Travel Stroller'')],
                               JObj [(''sku'', JStr ''7''), (''name'', JStr ''Toddler Travel Stroller'')]])]),
                 (''timestamp'', JDate 8)])]\<close>
  by (simp add: handler_defs example_defs)

subsection \<open>The fallback response\<close>

text \<open>
  The claim as stated covers every output that is not a string. The handler logs the
  output in a template literal, and the fallback answer is another: both convert the
  output to a string. An output object with an own \<open>toString\<close> property cannot be
  converted, the conversion throws inside the outer \<open>try\<close>, and the response is the
  error 500, not the fallback object.
\<close>

theorem handleQuery_unconvertible_output_counterexample:
  "extractOutput (JObj [(''answer'', JObj [(''toString'', JNum (Finite 1))])])
     = Inr (JObj [(''toString'', JNum (Finite 1))])
   \<and> \<not> isString (JObj [(''toString'', JNum (Finite 1))])
   \<and> fst (handleQuery
        (exampleApp (JObj [(''answer'', JObj [(''toString'', JNum (Finite 1))])])
           (exampleStore JNull (Some twoTurns)))
        exampleRequest ''/ask'' [])
     = \<lparr>status = 500,
        body = JObj [(''answer'', JStr ''Error processing your question''),
                     (''relatedProducts'', JArr []),
                     (''details'', JStr ''Cannot convert object to primitive value'')]\<rparr>"
  by (simp add: handler_defs example_defs)

text \<open>
  C1, amended. Let the handler receive the LLM output \<open>llmOutputString\<close>, an output that can
  be converted to a string, \<open>raw\<close> being the result (a string output is its own
  conversion). If the output is not a string or is the empty string, or the text handed
  to \<open>JSON.parse\<close> does not parse, or it parses to a value that lacks a string \<open>answer\<close> or an
  array \<open>relatedProducts\<close>, then the response (status 200) is the fallback object:
  \<open>relatedProducts\<close> is empty and \<open>answer\<close> is the fixed sentence followed by the raw output,
  or by \<open>Not available\<close> when the output is empty. Nothing is called after the LLM: the
  trace is the one at which the output was received.
\<close>

theorem handleQuery_fallback_amended:
  assumes "userQueryOf req = userQuery" and "truthy userQuery"
    and "ragApplication (ragService a) = Some ragApplication_query"
    and "promptConfig a = Some config"
    and "retrieveOutput a config (userIdOf req) userQuery (userNameOf req) (childrenOf req) tr
           = (Inr (LlmOutput llmOutputString), tr1)"
    and "ToString (jsRuntime a) llmOutputString = Inr raw"
    and "\<not> isString llmOutputString \<or> llmOutputString = JStr []
         \<or> (\<exists>s. llmOutputString = JStr s
               \<and> (JSON_parse (jsRuntime a) (cleanedOutput s) = None
                    \<or> (\<exists>v. JSON_parse (jsRuntime a) (cleanedOutput s) = Some v
                          \<and> \<not> (isString (getProp v ''answer'') \<and> isArray (getProp v ''relatedProducts'')))))"
  shows "handleQuery a req endpointName tr =
           (\<lparr>status = 200,
             body = JObj [(''answer'',
                           JStr (''I had a little trouble formatting my response perfectly. Here's the main information: ''
                                 @ (if llmOutputString = JStr [] then ''Not available'' else raw))),
                          (''relatedProducts'', JArr [])]\<rparr>,
            tr1)"
proof -
  have p: "parseAndProcess (jsRuntime a) (db a) llmOutputString tr1
             = (fallbackResponse (jsRuntime a) llmOutputString, tr1)"
    using assms(7) by (rule parseAndProcess_fallback)
  have t: "truthy llmOutputString \<or> llmOutputString = JStr []"
    using assms(5) by (rule retrieveOutput_truthy)
  have f: "fallbackResponse (jsRuntime a) llmOutputString =
             Inr (JObj [(''answer'',
                    JStr (''I had a little trouble formatting my response perfectly. Here's the main information: ''
                          @ (if llmOutputString = JStr [] then ''Not available'' else raw))),
                   (''relatedProducts'', JArr [])])"
    using fallbackResponse_logged[OF assms(6) t] by (simp add: fallbackPrefix_def)
  show ?thesis
    using handleQuery_reached[OF assms(1-5)] respond_fallback[OF p f] by simp
qed

theorem handleQuery_fallback_amended_witness:
  "fst (handleQuery
     (exampleApp (JObj [(''answer'', JStr ''Sorry, no JSON today.'')]) (exampleStore JNull (Some twoTurns)))
     exampleRequest ''/ask'' [])
   = \<lparr>status = 200,
      body = JObj [(''answer'', JStr ''I had a little trouble formatting my response perfectly. Here's the main information: Sorry, no JSON today.''),
                   (''relatedProducts'', JArr [])]\<rparr>
   \<and> fst (handleQuery
     (exampleApp (JObj [(''content'', JNum (Finite 0))]) (exampleStore JNull (Some twoTurns)))
     exampleRequest ''/ask'' [])
   = \<lparr>status = 200,
      body = JObj [(''answer'', JStr ''I had a little trouble formatting my response perfectly. Here's the main information: Not available''),
                   (''relatedProducts'', JArr [])]\<rparr>
   \<and> fst (handleQuery
     (exampleApp (JObj [(''text'', JArr [JNum (Finite 42), JNull, JObj []])]) (exampleStore JNull (Some twoTurns)))
     exampleRequest ''/ask'' [])
   = \<lparr>status = 200,
      body = JObj [(''answer'', JStr ''I had a little trouble formatting my response perfectly. Here's the main information: 42,,[object Object]''),
                   (''relatedProducts'', JArr [])]\<rparr>"
proof -
  let ?a = "exampleApp (JObj [(''answer'', JStr ''Sorry, no JSON today.'')]) (exampleStore JNull (Some twoTurns))"
  let ?b = "exampleApp (JObj [(''content'', JNum (Finite 0))]) (exampleStore JNull (Some twoTurns))"
  let ?c = "exampleApp (JObj [(''text'', JArr [JNum (Finite 42), JNull, JObj []])]) (exampleStore JNull (Some twoTurns))"
  have 1: "userQueryOf exampleRequest = JStr ''Any strollers?''"
    by (simp add: userQueryOf_def exampleRequest_def orJs_def)
  have 2: "truthy (JStr ''Any strollers?'')" by simp
  have 3: "ragApplication (ragService ?a) = Some (\<lambda>prompt tr. Inr (JObj [(''answer'', JStr ''Sorry, no JSON today.'')]))"
    by (simp add: exampleApp_def exampleRag_def)
  have b3: "ragApplication (ragService ?b) = Some (\<lambda>prompt tr. Inr (JObj [(''content'', JNum (Finite 0))]))"
    by (simp add: exampleApp_def exampleRag_def)
  have c3: "ragApplication (ragService ?c)
              = Some (\<lambda>prompt tr. Inr (JObj [(''text'', JArr [JNum (Finite 42), JNull, JObj []])]))"
    by (simp add: exampleApp_def exampleRag_def)
  have 4: "promptConfig ?a = Some exampleConfig" by (simp add: exampleApp_def)
  have b4: "promptConfig ?b = Some exampleConfig" by (simp add: exampleApp_def)
  have c4: "promptConfig ?c = Some exampleConfig" by (simp add: exampleApp_def)
  have 5: "retrieveOutput ?a exampleConfig (userIdOf exampleRequest) (JStr ''Any strollers?'')
             (userNameOf exampleRequest) (childrenOf exampleRequest) []
           = (Inr (LlmOutput (JStr ''Sorry, no JSON today.'')),
              snd (retrieveOutput ?a exampleConfig (userIdOf exampleRequest) (JStr ''Any strollers?'')
                     (userNameOf exampleRequest) (childrenOf exampleRequest) []))"
    by (simp add: handler_defs example_defs)
  have b5: "retrieveOutput ?b exampleConfig (userIdOf exampleRequest) (JStr ''Any strollers?'')
             (userNameOf exampleRequest) (childrenOf exampleRequest) []
           = (Inr (LlmOutput (JStr [])),
              snd (retrieveOutput ?b exampleConfig (userIdOf exampleRequest) (JStr ''Any strollers?'')
                     (userNameOf exampleRequest) (childrenOf exampleRequest) []))"
    by (simp add: handler_defs example_defs)
  have c5: "retrieveOutput ?c exampleConfig (userIdOf exampleRequest) (JStr ''Any strollers?'')
             (userNameOf exampleRequest) (childrenOf exampleRequest) []
           = (Inr (LlmOutput (JArr [JNum (Finite 42), JNull, JObj []])),
              snd (retrieveOutput ?c exampleConfig (userIdOf exampleRequest) (JStr ''Any strollers?'')
                     (userNameOf exampleRequest) (childrenOf exampleRequest) []))"
    by (simp add: handler_defs example_defs)
  have 6: "ToString (jsRuntime ?a) (JStr ''Sorry, no JSON today.'') = Inr ''Sorry, no JSON today.''"
    by simp
  have b6: "ToString (jsRuntime ?b) (JStr []) = Inr []"
    by simp
  have c6: "ToString (jsRuntime ?c) (JArr [JNum (Finite 42), JNull, JObj []]) = Inr ''42,,[object Object]''"
    by (simp add: example_defs)
  have 7: "\<not> isString (JStr ''Sorry, no JSON today.'') \<or> JStr ''Sorry, no JSON today.'' = JStr []
         \<or> (\<exists>s. JStr ''Sorry, no JSON today.'' = JStr s
               \<and> (JSON_parse (jsRuntime ?a) (cleanedOutput s) = None
                    \<or> (\<exists>v. JSON_parse (jsRuntime ?a) (cleanedOutput s) = Some v
                          \<and> \<not> (isString (getProp v ''answer'') \<and> isArray (getProp v ''relatedProducts'')))))"
    by (simp add: handler_defs example_defs)
  have b7: "\<not> isString (JStr []) \<or> JStr [] = JStr []
         \<or> (\<exists>s. JStr [] = JStr s
               \<and> (JSON_parse (jsRuntime ?b) (cleanedOutput s) = None
                    \<or> (\<exists>v. JSON_parse (jsRuntime ?b) (cleanedOutput s) = Some v
                          \<and> \<not> (isString (getProp v ''answer'') \<and> isArray (getProp v ''relatedProducts'')))))"
    by simp
  have c7: "\<not> isString (JArr [JNum (Finite 42), JNull, JObj []]) \<or> JArr [JNum (Finite 42), JNull, JObj []] = JStr []
         \<or> (\<exists>s. JArr [JNum (Finite 42), JNull, JObj []] = JStr s
               \<and> (JSON_parse (jsRuntime ?c) (cleanedOutput s) = None
                    \<or> (\<exists>v. JSON_parse (jsRuntime ?c) (cleanedOutput s) = Some v
                          \<and> \<not> (isString (getProp v ''answer'') \<and> isArray (getProp v ''relatedProducts'')))))"
    by simp
  show ?thesis
    using handleQuery_fallback_amended[OF 1 2 3 4 5 6 7, of "''/ask''"]
          handleQuery_fallback_amended[OF 1 2 b3 b4 b5 b6 b7, of "''/ask''"]
          handleQuery_fallback_amended[OF 1 2 c3 c4 c5 c6 c7, of "''/ask''"]
    by simp
qed

subsection \<open>Related products\<close>

text \<open>
  The claim as stated says that every element is coerced to a string and looked up. The
  coercion is \<open>String(sku)\<close>, which throws for an object with an own \<open>toString\<close> property;
  the inner \<open>catch\<close> then answers with the fallback object. The output below parses to the
  expected shape, yet the response's \<open>relatedProducts\<close> is empty and the catalogue, which
  would return a row for every SKU, is never asked.
\<close>

theorem handleQuery_unconvertible_sku_counterexample:
  \<open>JSON_parse exampleRuntime (cleanedOutput ''{"answer":"Try the stroller.","relatedProducts":[{"toString":1}]}'')
     = Some (JObj [(''answer'', JStr ''Try the stroller.''),
                   (''relatedProducts'', JArr [JObj [(''toString'', JNum (Finite 1))]])])
   \<and> fst (handleQuery
        (exampleApp (JObj [(''answer'', JStr ''{"answer":"Try the stroller.","relatedProducts":[{"toString":1}]}'')])
           (exampleStore JNull (Some twoTurns)))
        exampleRequest ''/ask'' [])
     = \<lparr>status = 200,
        body = JObj [(''answer'', JStr (fallbackPrefix @ ''{"answer":"Try the stroller.","relatedProducts":[{"toString":1}]}'')),
                     (''relatedProducts'', JArr [])]\<rparr>
   \<and> filter isProductsFind
        (snd (handleQuery
        (exampleApp (JObj [(''answer'', JStr ''{"answer":"Try the stroller.","relatedProducts":[{"toString":1}]}'')])
           (exampleStore JNull (Some twoTurns)))
        exampleRequest ''/ask'' [])) = []\<close>
  by (simp add: handler_defs example_defs)

text \<open>
  C6, amended. Let the LLM output (a non-blank string) parse to a value with a string
  \<open>answer\<close> and an array \<open>relatedProducts\<close>. When every element of the array that is not a
  string can be converted to one, every element is coerced to a string (a string stays,
  another value becomes its conversion), and the response's \<open>relatedProducts\<close> is the list
  of rows \<open>getProductsBySKUs\<close> returns for those strings. When the conversion of an element
  throws, the response is the fallback object. \<open>getProductsBySKUs\<close> never throws, and
  returns the empty list when its argument is not a non-empty array, when the database is
  not initialised and when the lookup throws.
\<close>

theorem relatedProducts_enriched_amended:
  assumes "userQueryOf req = userQuery" and "truthy userQuery"
    and "ragApplication (ragService a) = Some ragApplication_query"
    and "promptConfig a = Some config"
    and "retrieveOutput a config (userIdOf req) userQuery (userNameOf req) (childrenOf req) tr
           = (Inr (LlmOutput (JStr s)), tr1)"
    and "trim s \<noteq> []"
    and "JSON_parse (jsRuntime a) (cleanedOutput s) = Some v"
    and "isString (getProp v ''answer'')"
    and "getProp v ''relatedProducts'' = JArr xs"
  shows "(\<forall>skus productDetails tr2.
            coerceSkus (jsRuntime a) xs = Inr skus
            \<and> getProductsBySKUs (db a) (JArr skus) tr1 = (Inr productDetails, tr2)
          \<longrightarrow> status (fst (handleQuery a req endpointName tr)) = 200
              \<and> getProp (body (fst (handleQuery a req endpointName tr))) ''relatedProducts'' = JArr productDetails
              \<and> getProp (body (fst (handleQuery a req endpointName tr))) ''answer'' = getProp v ''answer''
              \<and> length skus = length xs \<and> list_all isString skus
              \<and> (\<forall>i < length xs.
                    if isString (xs ! i) then skus ! i = xs ! i
                    else \<exists>t. ToString (jsRuntime a) (xs ! i) = Inr t \<and> skus ! i = JStr t))
     \<and> ((\<forall>x \<in> set xs. isString x \<or> (\<exists>t. ToString (jsRuntime a) x = Inr t))
          \<longrightarrow> (\<exists>skus. coerceSkus (jsRuntime a) xs = Inr skus))
     \<and> (\<forall>e. coerceSkus (jsRuntime a) xs = Inl e
          \<longrightarrow> (\<exists>x \<in> set xs. \<not> isString x \<and> ToString (jsRuntime a) x = Inl e)
              \<and> handleQuery a req endpointName tr
                  = (\<lparr>status = 200,
                      body = JObj [(''answer'', JStr (fallbackPrefix @ s)), (''relatedProducts'', JArr [])]\<rparr>,
                     tr1))
     \<and> (\<forall>d skus t. \<exists>rows t'. getProductsBySKUs d skus t = (Inr rows, t'))
     \<and> (\<forall>d skus t. \<not> isArray skus \<or> skus = JArr [] \<or> d = None
            \<or> (\<exists>productsFind ys e. d = Some productsFind \<and> skus = JArr ys \<and> productsFind ys t = Inl e)
          \<longrightarrow> fst (getProductsBySKUs d skus t) = Inr [])"
proof -
  let ?r = "jsRuntime a"
  let ?run = "handleQuery a req endpointName tr"
  obtain kvs where v: "v = JObj kvs" using assms(8) isString_getProp_object by blast
  obtain queryText where q: "ToString ?r userQuery = Inr queryText"
    using retrieveOutput_query[OF assms(5)] by blast
  have 1: "\<forall>skus productDetails tr2.
            coerceSkus ?r xs = Inr skus
            \<and> getProductsBySKUs (db a) (JArr skus) tr1 = (Inr productDetails, tr2)
          \<longrightarrow> status (fst ?run) = 200
              \<and> getProp (body (fst ?run)) ''relatedProducts'' = JArr productDetails
              \<and> getProp (body (fst ?run)) ''answer'' = getProp v ''answer''
              \<and> length skus = length xs \<and> list_all isString skus
              \<and> (\<forall>i < length xs.
                    if isString (xs ! i) then skus ! i = xs ! i
                    else \<exists>t. ToString ?r (xs ! i) = Inr t \<and> skus ! i = JStr t)"
  proof (intro allI impI)
    fix skus productDetails tr2
    assume h: "coerceSkus ?r xs = Inr skus
            \<and> getProductsBySKUs (db a) (JArr skus) tr1 = (Inr productDetails, tr2)"
    have p: "parseAndProcess ?r (db a) (JStr s) tr1 =
           (Inr (setProp (setProp (JObj kvs) ''relatedProducts'' (JArr skus))
                   ''relatedProducts'' (JArr productDetails)), tr2)"
      using assms(6-9) h unfolding v by (intro parseAndProcess_parsed) auto
    obtain tr3 where r: "respond a config (userIdOf req) userQuery
         (userMetadataForCacheKey (userNameOf req) (childrenOf req)) (JStr s) tr1
       = (Inr \<lparr>status = 200,
               body = setProp (setProp (JObj kvs) ''relatedProducts'' (JArr skus))
                        ''relatedProducts'' (JArr productDetails)\<rparr>, tr3)"
      using respond_body[OF q p] by blast
    have run: "fst ?run =
        \<lparr>status = 200,
         body = setProp (setProp (JObj kvs) ''relatedProducts'' (JArr skus))
                  ''relatedProducts'' (JArr productDetails)\<rparr>"
      using handleQuery_reached[OF assms(1-5)] r by simp
    have c: "length skus = length xs \<and> list_all isString skus
             \<and> (\<forall>i < length xs. coerceSku ?r (xs ! i) = Inr (skus ! i))"
      using h coerceSkus_Inr by blast
    have e: "\<forall>i < length xs.
                    if isString (xs ! i) then skus ! i = xs ! i
                    else \<exists>t. ToString ?r (xs ! i) = Inr t \<and> skus ! i = JStr t"
    proof (intro allI impI)
      fix i assume "i < length xs"
      then have "coerceSku ?r (xs ! i) = Inr (skus ! i)" using c by blast
      then show "if isString (xs ! i) then skus ! i = xs ! i
                 else \<exists>t. ToString ?r (xs ! i) = Inr t \<and> skus ! i = JStr t"
        by (auto simp: coerceSku_def split: sum.splits if_splits)
    qed
    show "status (fst ?run) = 200
              \<and> getProp (body (fst ?run)) ''relatedProducts'' = JArr productDetails
              \<and> getProp (body (fst ?run)) ''answer'' = getProp v ''answer''
              \<and> length skus = length xs \<and> list_all isString skus
              \<and> (\<forall>i < length xs.
                    if isString (xs ! i) then skus ! i = xs ! i
                    else \<exists>t. ToString ?r (xs ! i) = Inr t \<and> skus ! i = JStr t)"
      using run c e v by (simp add: update_conv')
  qed
  have 2: "(\<forall>x \<in> set xs. isString x \<or> (\<exists>t. ToString ?r x = Inr t))
          \<longrightarrow> (\<exists>skus. coerceSkus ?r xs = Inr skus)"
    using coerceSkus_convertible by blast
  have 3: "\<forall>e. coerceSkus ?r xs = Inl e
          \<longrightarrow> (\<exists>x \<in> set xs. \<not> isString x \<and> ToString ?r x = Inl e)
              \<and> ?run = (\<lparr>status = 200,
                      body = JObj [(''answer'', JStr (fallbackPrefix @ s)), (''relatedProducts'', JArr [])]\<rparr>,
                     tr1)"
  proof (intro allI impI)
    fix e assume h: "coerceSkus ?r xs = Inl e"
    have p: "parseAndProcess ?r (db a) (JStr s) tr1 = (fallbackResponse ?r (JStr s), tr1)"
      using assms(6-9) h by (rule parseAndProcess_unconvertible)
    have ne: "s \<noteq> []" using assms(6) by (auto simp: trim_def)
    have f: "fallbackResponse ?r (JStr s)
               = Inr (JObj [(''answer'', JStr (fallbackPrefix @ s)), (''relatedProducts'', JArr [])])"
      using ne by (simp add: fallbackResponse_def orJs_def)
    have "?run = (\<lparr>status = 200,
                      body = JObj [(''answer'', JStr (fallbackPrefix @ s)), (''relatedProducts'', JArr [])]\<rparr>,
                     tr1)"
      using handleQuery_reached[OF assms(1-5)] respond_fallback[OF p f] by simp
    then show "(\<exists>x \<in> set xs. \<not> isString x \<and> ToString ?r x = Inl e)
              \<and> ?run = (\<lparr>status = 200,
                      body = JObj [(''answer'', JStr (fallbackPrefix @ s)), (''relatedProducts'', JArr [])]\<rparr>,
                     tr1)"
      using coerceSkus_Inl[OF h] by blast
  qed
  have 4: "\<forall>d skus t. \<exists>rows t'. getProductsBySKUs d skus t = (Inr rows, t')"
    using getProductsBySKUs_no_throw by blast
  have 5: "\<forall>d skus t. \<not> isArray skus \<or> skus = JArr [] \<or> d = None
            \<or> (\<exists>productsFind ys e. d = Some productsFind \<and> skus = JArr ys \<and> productsFind ys t = Inl e)
          \<longrightarrow> fst (getProductsBySKUs d skus t) = Inr []"
    using getProductsBySKUs_empty by blast
  show ?thesis using 1 2 3 4 5 by blast
qed

theorem relatedProducts_enriched_amended_witness:
  \<open>getProp (body (fst (handleQuery
       (exampleApp (JObj [(''answer'', JStr ''{"answer":"Try the stroller.","relatedProducts":["sku-1",7]}'')])
          (exampleStore JNull (Some twoTurns)))
       exampleRequest ''/ask'' []))) ''relatedProducts''
     = JArr [JObj [(''sku'', JStr ''sku-1''), (''name'', JStr ''Toddler Travel Stroller'')],
             JObj [(''sku'', JStr ''7''), (''name'', JStr ''Toddler Travel Stroller'')]]
   \<and> fst (handleQuery
        (exampleApp (JObj [(''answer'', JStr ''{"answer":"Try the stroller.","relatedProducts":[{"toString":1}]}'')])
           (exampleStore JNull (Some twoTurns)))
        exampleRequest ''/ask'' [])
     = \<lparr>status = 200,
        body = JObj [(''answer'', JStr (fallbackPrefix @ ''{"answer":"Try the stroller.","relatedProducts":[{"toString":1}]}'')),
                     (''relatedProducts'', JArr [])]\<rparr>
   \<and> fst (getProductsBySKUs None (JArr [JStr ''sku-1'']) []) = Inr []
   \<and> fst (getProductsBySKUs (Some (\<lambda>skus tr. Inl (Error ''connection lost''))) (JArr [JStr ''sku-1'']) []) = Inr []
   \<and> fst (getProductsBySKUs (Some (\<lambda>skus tr. Inr (map exampleRow skus))) (JStr ''sku-1'') []) = Inr []\<close>
proof -
  let ?s = \<open>''{"answer":"Try the stroller.","relatedProducts":["sku-1",7]}''\<close>
  let ?a = "exampleApp (JObj [(''answer'', JStr ?s)]) (exampleStore JNull (Some twoTurns))"
  let ?v = "JObj [(''answer'', JStr ''Try the stroller.''),
                  (''relatedProducts'', JArr [JStr ''sku-1'', JNum (Finite 7)])]"
  let ?tr1 = "snd (retrieveOutput ?a exampleConfig (userIdOf exampleRequest) (JStr ''Any strollers?'')
                     (userNameOf exampleRequest) (childrenOf exampleRequest) [])"
  let ?rows = "[JObj [(''sku'', JStr ''sku-1''), (''name'', JStr ''Toddler Travel Stroller'')],
             JObj [(''sku'', JStr ''7''), (''name'', JStr ''Toddler Travel Stroller'')]]"
  let ?s' = \<open>''{"answer":"Try the stroller.","relatedProducts":[{"toString":1}]}''\<close>
  let ?a' = "exampleApp (JObj [(''answer'', JStr ?s')]) (exampleStore JNull (Some twoTurns))"
  let ?v' = "JObj [(''answer'', JStr ''Try the stroller.''),
                   (''relatedProducts'', JArr [JObj [(''toString'', JNum (Finite 1))]])]"
  have 1: "userQueryOf exampleRequest = JStr ''Any strollers?''"
    by (simp add: userQueryOf_def exampleRequest_def orJs_def)
  have 2: "truthy (JStr ''Any strollers?'')" by simp
  have 3: "ragApplication (ragService ?a) = Some (\<lambda>prompt tr. Inr (JObj [(''answer'', JStr ?s)]))"
    by (simp add: exampleApp_def exampleRag_def)
  have 4: "promptConfig ?a = Some exampleConfig" by (simp add: exampleApp_def)
  have 5: "retrieveOutput ?a exampleConfig (userIdOf exampleRequest) (JStr ''Any strollers?'')
             (userNameOf exampleRequest) (childrenOf exampleRequest) []
           = (Inr (LlmOutput (JStr ?s)), ?tr1)"
    by (simp add: handler_defs example_defs)
  have 6: "trim ?s \<noteq> []" by (simp add: trim_def isWhiteSpace_def)
  have 7: "JSON_parse (jsRuntime ?a) (cleanedOutput ?s) = Some ?v"
    by (simp add: handler_defs example_defs)
  have 8: "isString (getProp ?v ''answer'')" by simp
  have 9: "getProp ?v ''relatedProducts'' = JArr [JStr ''sku-1'', JNum (Finite 7)]" by simp
  have 10: "coerceSkus (jsRuntime ?a) [JStr ''sku-1'', JNum (Finite 7)] = Inr [JStr ''sku-1'', JStr ''7'']
            \<and> getProductsBySKUs (db ?a) (JArr [JStr ''sku-1'', JStr ''7'']) ?tr1
            = (Inr ?rows, ?tr1 @ [ProductsFind [JStr ''sku-1'', JStr ''7'']])"
    by (simp add: getProductsBySKUs_def call_def coerceSku_def example_defs)
  note inst = relatedProducts_enriched_amended[OF 1 2 3 4 5 6 7 8 9, of "''/ask''"]
  have a: "getProp (body (fst (handleQuery ?a exampleRequest ''/ask'' []))) ''relatedProducts'' = JArr ?rows"
    using inst[THEN conjunct1, rule_format, OF 10] by blast
  have e: "\<And>d skus t. \<not> isArray skus \<or> skus = JArr [] \<or> d = None
            \<or> (\<exists>productsFind ys e. d = Some productsFind \<and> skus = JArr ys \<and> productsFind ys t = Inl e)
          \<Longrightarrow> fst (getProductsBySKUs d skus t) = Inr []"
    using inst by blast
  have b: "fst (getProductsBySKUs None (JArr [JStr ''sku-1'']) []) = Inr []"
    by (rule e) simp
  have c: "fst (getProductsBySKUs (Some (\<lambda>skus tr. Inl (Error ''connection lost''))) (JArr [JStr ''sku-1'']) []) = Inr []"
    by (rule e) simp
  have d: "fst (getProductsBySKUs (Some (\<lambda>skus tr. Inr (map exampleRow skus))) (JStr ''sku-1'') []) = Inr []"
    by (rule e) simp
  have u3: "ragApplication (ragService ?a') = Some (\<lambda>prompt tr. Inr (JObj [(''answer'', JStr ?s')]))"
    by (simp add: exampleApp_def exampleRag_def)
  have u4: "promptConfig ?a' = Some exampleConfig" by (simp add: exampleApp_def)
  have u5: "retrieveOutput ?a' exampleConfig (userIdOf exampleRequest) (JStr ''Any strollers?'')
             (userNameOf exampleRequest) (childrenOf exampleRequest) []
           = (Inr (LlmOutput (JStr ?s')),
              snd (retrieveOutput ?a' exampleConfig (userIdOf exampleRequest) (JStr ''Any strollers?'')
                     (userNameOf exampleRequest) (childrenOf exampleRequest) []))"
    by (simp add: handler_defs example_defs)
  have u6: "trim ?s' \<noteq> []" by (simp add: trim_def isWhiteSpace_def)
  have u7: "JSON_parse (jsRuntime ?a') (cleanedOutput ?s') = Some ?v'"
    by (simp add: handler_defs example_defs)
  have u8: "isString (getProp ?v' ''answer'')" by simp
  have u9: "getProp ?v' ''relatedProducts'' = JArr [JObj [(''toString'', JNum (Finite 1))]]" by simp
  have u10: "coerceSkus (jsRuntime ?a') [JObj [(''toString'', JNum (Finite 1))]]
               = Inl (Error ''Cannot convert object to primitive value'')"
    by (simp add: coerceSku_def)
  have f: "fst (handleQuery ?a' exampleRequest ''/ask'' [])
     = \<lparr>status = 200,
        body = JObj [(''answer'', JStr (fallbackPrefix @ ?s')), (''relatedProducts'', JArr [])]\<rparr>"
    using relatedProducts_enriched_amended[OF 1 2 u3 u4 u5 u6 u7 u8 u9, of "''/ask''",
            THEN conjunct2, THEN conjunct2, THEN conjunct1, rule_format, OF u10]
    by simp
  show ?thesis using a f b c d by blast
qed

subsection \<open>The text handed to the parser\<close>






















subsection \<open>What the handler persists\<close>

lemma quiet_fallbackFree: "quiet ev \<Longrightarrow> fallbackFree ev"
  by (cases ev) auto

lemma quiet_no_write: "quiet ev \<Longrightarrow> \<not> isAddEntry ev \<and> \<not> isLoaderCustomSet ev \<and> \<not> isCacheWrite ev"
  by (cases ev) auto

lemma summaryWrite_fallbackFree: "summaryWrite userId ev \<Longrightarrow> fallbackFree ev"
  by (cases ev) (auto simp: memoryKey_def)

lemma summaryWrite_no_entry: "summaryWrite userId ev \<Longrightarrow> \<not> isAddEntry ev \<and> \<not> isCacheWrite ev"
  by (cases ev) (auto simp: memoryKey_def)

lemma list_all_quiet_filter:
  "list_all quiet new \<Longrightarrow>
     filter isAddEntry new = [] \<and> filter isLoaderCustomSet new = [] \<and> filter isCacheWrite new = []"
  by (induction new) (auto dest: quiet_no_write)

lemma list_all_summaryWrite_filter:
  "list_all (summaryWrite userId) new \<Longrightarrow> filter isAddEntry new = [] \<and> filter isCacheWrite new = []"
  by (induction new) (auto dest: summaryWrite_no_entry)

lemma getCachedResult_quiet:
  "\<exists>new. snd (getCachedResult r this userId query md tr) = tr @ new \<and> list_all quiet new"
  by (auto simp: getCachedResult_def call_def Let_def split: option.splits sum.splits)

lemma getConversationMemory_quiet:
  "\<exists>new. snd (getConversationMemory this userId tr) = tr @ new \<and> list_all quiet new"
  by (auto simp: getConversationMemory_def call_def Let_def split: option.splits sum.splits)

lemma getConversationHistory_quiet:
  "\<exists>new. snd (getConversationHistory this userId tr) = tr @ new \<and> list_all quiet new"
  by (auto simp: getConversationHistory_def call_def Let_def split: option.splits sum.splits)

lemma queryRAG_quiet:
  "\<exists>new. snd (queryRAG r rag prompt tr) = tr @ new \<and> list_all quiet new"
  by (auto simp: queryRAG_def RagService_query_def call_def split: option.splits)

lemma getProductsBySKUs_quiet:
  "\<exists>new. snd (getProductsBySKUs d skus tr) = tr @ new \<and> list_all quiet new"
  by (cases skus) (auto simp: getProductsBySKUs_def call_def split: option.splits sum.splits)

lemma parseAndProcess_quiet:
  "\<exists>new. snd (parseAndProcess r d llm tr) = tr @ new \<and> list_all quiet new"
proof -
  have g: "\<exists>new. tr' = tr @ new \<and> list_all quiet new"
    if "getProductsBySKUs d skus tr = (out, tr')" for skus out tr'
    using getProductsBySKUs_quiet[of d skus tr] that by simp
  show ?thesis
    by (cases llm) (auto simp: parseAndProcess_def Let_def dest: g split: option.splits prod.splits sum.splits)
qed

lemma retrieveOutput_quiet:
  "\<exists>new. snd (retrieveOutput a config userId userQuery userName children tr) = tr @ new
         \<and> list_all quiet new"
proof -
  let ?md = "userMetadataForCacheKey userName children"
  obtain c tr1 where c: "getCachedResult (jsRuntime a) (cacheService a) userId userQuery ?md tr = (c, tr1)"
    by (cases "getCachedResult (jsRuntime a) (cacheService a) userId userQuery ?md tr") auto
  obtain n1 where n1: "tr1 = tr @ n1" "list_all quiet n1"
    using getCachedResult_quiet[of "jsRuntime a" "cacheService a" userId userQuery ?md tr] c by auto
  obtain m tr2 where m: "getConversationMemory (memoryService a) userId tr1 = (m, tr2)"
    by (cases "getConversationMemory (memoryService a) userId tr1") auto
  obtain n2 where n2: "tr2 = tr1 @ n2" "list_all quiet n2"
    using getConversationMemory_quiet[of "memoryService a" userId tr1] m by auto
  obtain h tr3 where h: "getConversationHistory (memoryService a) userId tr2 = (h, tr3)"
    by (cases "getConversationHistory (memoryService a) userId tr2") auto
  obtain n3 where n3: "tr3 = tr2 @ n3" "list_all quiet n3"
    using getConversationHistory_quiet[of "memoryService a" userId tr2] h by auto
  have q: "\<exists>n4. snd (queryRAG (jsRuntime a) (ragService a) prompt tr3) = tr3 @ n4 \<and> list_all quiet n4" for prompt
    by (rule queryRAG_quiet)
  show ?thesis
  proof (cases c)
    case (Inl e)
    with c n1 show ?thesis by (simp add: retrieveOutput_def)
  next
    case cr: (Inr cachedResult)
    show ?thesis
    proof (cases "truthy cachedResult")
      case True
      with c cr n1 show ?thesis by (simp add: retrieveOutput_def)
    next
      case False
      show ?thesis
      proof (cases m)
        case (Inl e)
        with c cr False m n1 n2 show ?thesis by (simp add: retrieveOutput_def)
      next
        case ltm: (Inr longTermMemoryContext)
        show ?thesis
        proof (cases "promptHead (jsRuntime a) config userId userName children longTermMemoryContext")
          case (Inl e)
          with c cr False m ltm n1 n2 show ?thesis by (simp add: retrieveOutput_def)
        next
          case hd: (Inr head)
          show ?thesis
          proof (cases h)
            case (Inl e)
            with c cr False m ltm hd h n1 n2 n3 show ?thesis by (simp add: retrieveOutput_def)
          next
            case cd: (Inr conversationData)
            show ?thesis
            proof (cases "promptForRAG (jsRuntime a) head config (entriesOf conversationData) userQuery")
              case (Inl e)
              with c cr False m ltm hd h cd n1 n2 n3 show ?thesis by (simp add: retrieveOutput_def)
            next
              case pr: (Inr prompt)
              obtain n4 where n4:
                "snd (queryRAG (jsRuntime a) (ragService a) prompt tr3) = tr3 @ n4"
                "list_all quiet n4"
                using q by blast
              show ?thesis
                using c cr False m ltm hd h cd pr n1 n2 n3 n4
                by (auto simp: retrieveOutput_def split: prod.splits sum.splits)
            qed
          qed
        qed
      qed
    qed
  qed
qed

lemma isValidResponse_iff:
  "isValidResponse brj \<longleftrightarrow>
     (\<exists>answer. getProp brj ''answer'' = JStr answer \<and> trim answer \<noteq> []
        \<and> \<not> includesStr answer ''I had a little trouble formatting my response'')"
  by (cases brj; cases "getProp brj ''answer''") (auto simp: isValidResponse_def marker_def)

lemma isValidResponse_answerOf: "isValidResponse brj \<Longrightarrow> \<not> includesStr (answerOf brj) marker"
  by (cases "getProp brj ''answer''") (auto simp: isValidResponse_def answerOf_def)

lemma isValidResponse_answer: "isValidResponse brj \<Longrightarrow> getProp brj ''answer'' = JStr (answerOf brj)"
  by (cases "getProp brj ''answer''") (auto simp: isValidResponse_def answerOf_def)

lemma addConversationEntries_events:
  "\<not> includesStr answer marker \<Longrightarrow>
   \<exists>new. snd (addConversationEntries r this userId userQuery (JStr answer) tr) = tr @ new
         \<and> list_all fallbackFree new \<and> filter isCacheWrite new = []"
  by (auto simp: addConversationEntries_def call_def Let_def split: option.splits sum.splits)

lemma setCachedResult_events:
  "isValidResponse data \<Longrightarrow>
   \<exists>new. snd (setCachedResult r this userId query md data tr) = tr @ new
         \<and> list_all fallbackFree new \<and> filter isAddEntry new = []"
  by (auto simp: setCachedResult_def call_def Let_def split: option.splits sum.splits)

lemma summarize_fallbackFree:
  "\<exists>new. snd (summarizeAndStoreMemory r this userId rag tmpl tr) = tr @ new
         \<and> list_all fallbackFree new \<and> filter isAddEntry new = [] \<and> filter isCacheWrite new = []"
proof -
  obtain new where new: "snd (summarizeAndStoreMemory r this userId rag tmpl tr) = tr @ new"
    "list_all (summaryWrite userId) new"
    using summarize_new_events by blast
  have "list_all fallbackFree new"
    using new(2) by (induction new) (auto dest: summaryWrite_fallbackFree)
  then show ?thesis using new list_all_summaryWrite_filter by blast
qed

lemma saveConversationAndCache_events:
  assumes "isValidResponse brj"
  shows "\<exists>new. snd (saveConversationAndCache a config userId userQuery md brj tr) = tr @ new
         \<and> list_all fallbackFree new"
proof -
  note ans = isValidResponse_answer[OF assms]
  obtain o1 t1 where 1: "addConversationEntries (jsRuntime a) (memoryService a) userId userQuery
                           (JStr (answerOf brj)) tr = (o1, t1)"
    by (cases "addConversationEntries (jsRuntime a) (memoryService a) userId userQuery
                 (JStr (answerOf brj)) tr") auto
  obtain n1 where n1: "t1 = tr @ n1" "list_all fallbackFree n1"
    using addConversationEntries_events[OF isValidResponse_answerOf[OF assms],
            of "jsRuntime a" "memoryService a" userId userQuery tr] 1 by auto
  obtain o2 t2 where 2: "setCachedResult (jsRuntime a) (cacheService a) userId userQuery md brj t1 = (o2, t2)"
    by (cases "setCachedResult (jsRuntime a) (cacheService a) userId userQuery md brj t1") auto
  obtain n2 where n2: "t2 = t1 @ n2" "list_all fallbackFree n2"
    using setCachedResult_events[OF assms, of "jsRuntime a" "cacheService a" userId userQuery md t1] 2 by auto
  obtain o3 t3 where 3: "summarizeAndStoreMemory (jsRuntime a) (memoryService a) userId (ragService a)
                           (summarizationInstruction config) t2 = (o3, t3)"
    by (cases "summarizeAndStoreMemory (jsRuntime a) (memoryService a) userId (ragService a)
                           (summarizationInstruction config) t2") auto
  obtain n3 where n3: "t3 = t2 @ n3" "list_all fallbackFree n3"
    using summarize_fallbackFree[of "jsRuntime a" "memoryService a" userId "ragService a"
            "summarizationInstruction config" t2] 3 by auto
  show ?thesis
    using 1 2 3 n1 n2 n3
    by (auto simp: saveConversationAndCache_def ans split: sum.splits)
qed

lemma list_all_quiet_fallbackFree: "list_all quiet new \<Longrightarrow> list_all fallbackFree new"
  by (induction new) (auto dest: quiet_fallbackFree)

lemma respond_events:
  "\<exists>new. snd (respond a config userId userQuery md llm tr) = tr @ new \<and> list_all fallbackFree new"
proof -
  obtain out tr1 where p: "parseAndProcess (jsRuntime a) (db a) llm tr = (out, tr1)"
    by (cases "parseAndProcess (jsRuntime a) (db a) llm tr") auto
  obtain n1 where n1: "tr1 = tr @ n1" "list_all quiet n1"
    using parseAndProcess_quiet[of "jsRuntime a" "db a" llm tr] p by auto
  show ?thesis
  proof (cases out)
    case (Inl e)
    with p n1 show ?thesis by (auto simp: respond_def dest: list_all_quiet_fallbackFree)
  next
    case (Inr brj)
    show ?thesis
    proof (cases "isValidResponse brj")
      case False
      with p Inr n1 show ?thesis by (auto simp: respond_def dest: list_all_quiet_fallbackFree)
    next
      case True
      obtain n2 where n2: "snd (saveConversationAndCache a config userId userQuery md brj tr1) = tr1 @ n2"
        "list_all fallbackFree n2"
        using saveConversationAndCache_events[OF True] by blast
      show ?thesis
        using p Inr n1 n2 True
        by (auto simp: respond_def dest: list_all_quiet_fallbackFree split: prod.splits sum.splits)
    qed
  qed
qed

lemma handleQueryTry_events:
  "\<exists>new. snd (handleQueryTry a config userId userQuery userName children tr) = tr @ new
         \<and> list_all fallbackFree new"
proof -
  obtain out tr1 where r: "retrieveOutput a config userId userQuery userName children tr = (out, tr1)"
    by (cases "retrieveOutput a config userId userQuery userName children tr") auto
  obtain n1 where n1: "tr1 = tr @ n1" "list_all quiet n1"
    using retrieveOutput_quiet[of a config userId userQuery userName children tr] r by auto
  have f1: "list_all fallbackFree n1" using n1(2) by (rule list_all_quiet_fallbackFree)
  show ?thesis
  proof (cases out)
    case (Inl e)
    with r n1 f1 show ?thesis by (simp add: handleQueryTry_def)
  next
    case (Inr oc)
    show ?thesis
    proof (cases oc)
      case (CacheHit c)
      with r Inr n1 f1 show ?thesis by (simp add: handleQueryTry_def)
    next
      case (LlmOutput llm)
      obtain n2 where "snd (respond a config userId userQuery (userMetadataForCacheKey userName children) llm tr1)
                         = tr1 @ n2" "list_all fallbackFree n2"
        using respond_events by blast
      with r Inr LlmOutput n1 f1 show ?thesis by (simp add: handleQueryTry_def)
    qed
  qed
qed

lemma handleQuery_events:
  "\<exists>new. snd (handleQuery a req endpointName tr) = tr @ new \<and> list_all fallbackFree new"
proof -
  have t: "\<exists>new. snd (handleQueryTry a config userId userQuery userName children tr) = tr @ new
         \<and> list_all fallbackFree new" for config userId userQuery userName children
    by (rule handleQueryTry_events)
  show ?thesis
    unfolding handleQuery_def Let_def
    using t by (auto split: option.splits sum.splits simp: split_beta)
qed

lemma handleQuery_invalid:
  assumes "receivesOutput a req tr userQuery config llm tr1"
    and "parseAndProcess (jsRuntime a) (db a) llm tr1 = (Inr brj, tr2)"
    and "\<not> isValidResponse brj"
  shows "handleQuery a req endpointName tr = (\<lparr>status = 200, body = brj\<rparr>, tr2)
         \<and> filter isAddEntry (newEvents tr tr2) = []
         \<and> filter isLoaderCustomSet (newEvents tr tr2) = []"
proof -
  from assms(1) obtain q where reach:
    "userQueryOf req = userQuery" "truthy userQuery" "ragApplication (ragService a) = Some q"
    "promptConfig a = Some config"
    "retrieveOutput a config (userIdOf req) userQuery (userNameOf req) (childrenOf req) tr
       = (Inr (LlmOutput llm), tr1)"
    by (auto simp: receivesOutput_def)
  obtain n0 where n0: "tr1 = tr @ n0" "list_all quiet n0"
    using retrieveOutput_quiet[of a config "userIdOf req" userQuery "userNameOf req" "childrenOf req" tr] reach(5)
    by auto
  obtain n1 where n1: "tr2 = tr1 @ n1" "list_all quiet n1"
    using parseAndProcess_quiet[of "jsRuntime a" "db a" llm tr1] assms(2) by auto
  have "list_all quiet (n0 @ n1)" using n0 n1 by simp
  then have f: "filter isAddEntry (n0 @ n1) = [] \<and> filter isLoaderCustomSet (n0 @ n1) = []"
    using list_all_quiet_filter by blast
  have "handleQuery a req endpointName tr = (\<lparr>status = 200, body = brj\<rparr>, tr2)"
    using handleQuery_reached[OF reach] assms(2,3) by (simp add: respond_def)
  then show ?thesis using f n0 n1 by (simp add: newEvents_def)
qed

lemma setCachedResult_call:
  "mongoStore this = Some cs \<Longrightarrow> loaderCustomSet cs = Some set' \<Longrightarrow>
   generateCacheKey r userId query md = Inr key \<Longrightarrow>
   \<exists>b. setCachedResult r this userId query md data tr
         = (Inr b, tr @ [LoaderCustomSet userId key
                          (JObj [(''data'', data), (''timestamp'', JDate (Date_now r tr))])])"
  by (auto simp: setCachedResult_def call_def Let_def split: sum.splits)

lemma handleQuery_valid:
  fixes a req userQuery
  defines "uid \<equiv> userIdOf req"
  defines "r \<equiv> jsRuntime a"
  assumes "receivesOutput a req tr userQuery config llm tr1"
    and "parseAndProcess r (db a) llm tr1 = (Inr brj, tr2)"
    and "isValidResponse brj"
    and "mongoStore (memoryService a) = Some ms"
    and "addEntryToConversation ms = Some add"
    and "userTurn = \<lparr>role = ''User'', content = userQuery, timestamp = Date_now r tr2\<rparr>"
    and "botTurn = \<lparr>role = ''Bot'', content = JStr (answerOf brj),
                    timestamp = Date_now r (tr2 @ [AddEntryToConversation uid userTurn])\<rparr>"
    and "add uid userTurn tr2 = Inr ()"
    and "add uid botTurn (tr2 @ [AddEntryToConversation uid userTurn]) = Inr ()"
    and "mongoStore (cacheService a) = Some cs"
    and "loaderCustomSet cs = Some set'"
  shows "\<exists>key. generateCacheKey r uid userQuery (userMetadataForCacheKey (userNameOf req) (childrenOf req))
                 = Inr key
         \<and> fst (handleQuery a req endpointName tr) = \<lparr>status = 200, body = brj\<rparr>
         \<and> filter isAddEntry (newEvents tr (snd (handleQuery a req endpointName tr)))
             = [AddEntryToConversation uid userTurn, AddEntryToConversation uid botTurn]
         \<and> filter isCacheWrite (newEvents tr (snd (handleQuery a req endpointName tr)))
             = [LoaderCustomSet uid key
                  (JObj [(''data'', brj),
                         (''timestamp'', JDate (Date_now r (tr2 @ [AddEntryToConversation uid userTurn,
                                                                  AddEntryToConversation uid botTurn])))])]"
proof -
  let ?e1 = "AddEntryToConversation uid userTurn"
  let ?e2 = "AddEntryToConversation uid botTurn"
  let ?md = "userMetadataForCacheKey (userNameOf req) (childrenOf req)"
  from assms(3) obtain q where reach:
    "userQueryOf req = userQuery" "truthy userQuery" "ragApplication (ragService a) = Some q"
    "promptConfig a = Some config"
    "retrieveOutput a config (userIdOf req) userQuery (userNameOf req) (childrenOf req) tr
       = (Inr (LlmOutput llm), tr1)"
    by (auto simp: receivesOutput_def)
  obtain n0 where n0: "tr1 = tr @ n0" "list_all quiet n0"
    using retrieveOutput_quiet[of a config "userIdOf req" userQuery "userNameOf req" "childrenOf req" tr] reach(5)
    by auto
  obtain n1 where n1: "tr2 = tr1 @ n1" "list_all quiet n1"
    using parseAndProcess_quiet[of r "db a" llm tr1] assms(4) by auto
  obtain queryText where qt: "ToString r userQuery = Inr queryText"
    using retrieveOutput_query[OF reach(5)] by (auto simp: r_def)
  define key where "key = ''cache:'' @ uid @ '':'' @ queryText @ '':'' @ JSON_stringify r (orJs ?md (JObj []))"
  have key: "generateCacheKey r uid userQuery ?md = Inr key"
    using generateCacheKey_Inr[OF qt] by (simp add: key_def)
  define cacheWrite where "cacheWrite = LoaderCustomSet uid key
                  (JObj [(''data'', brj),
                         (''timestamp'', JDate (Date_now r (tr2 @ [?e1, ?e2])))])"
  have add: "addConversationEntries r (memoryService a) uid userQuery (getProp brj ''answer'') tr2
               = (Inr True, tr2 @ [?e1, ?e2])"
    using assms(6-11) isValidResponse_answer[OF assms(5)]
    by (simp add: addConversationEntries_def call_def Let_def)
  obtain b where cache: "setCachedResult r (cacheService a) uid userQuery ?md brj (tr2 @ [?e1, ?e2])
               = (Inr b, tr2 @ [?e1, ?e2, cacheWrite])"
    using setCachedResult_call[OF assms(12,13) key, of brj "tr2 @ [?e1, ?e2]"]
    by (auto simp: cacheWrite_def)
  let ?tr3 = "tr2 @ [?e1, ?e2, cacheWrite]"
  obtain b3 where sm: "fst (summarizeAndStoreMemory r (memoryService a) uid (ragService a)
                              (summarizationInstruction config) ?tr3) = Inr b3"
    using summarizeAndStoreMemory_no_throw by blast
  obtain n3 where n3: "snd (summarizeAndStoreMemory r (memoryService a) uid (ragService a)
                              (summarizationInstruction config) ?tr3) = ?tr3 @ n3"
      "filter isAddEntry n3 = []" "filter isCacheWrite n3 = []"
    using summarize_fallbackFree by blast
  have smp: "summarizeAndStoreMemory r (memoryService a) uid (ragService a)
               (summarizationInstruction config) ?tr3 = (Inr b3, ?tr3 @ n3)"
    using sm n3(1) by (simp add: prod_eq_iff)
  have save: "saveConversationAndCache a config uid userQuery ?md brj tr2
                = (Inr (), ?tr3 @ n3)"
    using add cache smp by (simp add: saveConversationAndCache_def r_def)
  have run: "handleQuery a req endpointName tr = (\<lparr>status = 200, body = brj\<rparr>, ?tr3 @ n3)"
    using handleQuery_reached[OF reach] assms(4,5) save by (simp add: respond_def uid_def r_def)
  have cw: "isCacheWrite cacheWrite"
    by (simp add: cacheWrite_def key_def)
  have q01: "filter isAddEntry (n0 @ n1) = [] \<and> filter isCacheWrite (n0 @ n1) = []"
    using n0 n1 list_all_quiet_filter[of "n0 @ n1"] by simp
  have new: "newEvents tr (?tr3 @ n3) = n0 @ n1 @ [?e1, ?e2, cacheWrite] @ n3"
    using n0 n1 by (simp add: newEvents_def)
  have nc: "\<not> isAddEntry cacheWrite" by (simp add: cacheWrite_def)
  have "fst (handleQuery a req endpointName tr) = \<lparr>status = 200, body = brj\<rparr>
         \<and> filter isAddEntry (newEvents tr (snd (handleQuery a req endpointName tr))) = [?e1, ?e2]
         \<and> filter isCacheWrite (newEvents tr (snd (handleQuery a req endpointName tr))) = [cacheWrite]"
    using run n3 cw q01 new nc by simp
  then show ?thesis using key unfolding cacheWrite_def by blast
qed

lemma handleQuery_writes_only_valid:
  assumes "filter isAddEntry (newEvents tr (snd (handleQuery a req endpointName tr))) \<noteq> []
           \<or> filter isLoaderCustomSet (newEvents tr (snd (handleQuery a req endpointName tr))) \<noteq> []"
  shows "\<exists>userQuery config llm tr1 brj tr2. receivesOutput a req tr userQuery config llm tr1
           \<and> parseAndProcess (jsRuntime a) (db a) llm tr1 = (Inr brj, tr2) \<and> isValidResponse brj"
proof (rule ccontr)
  assume no: "\<not> ?thesis"
  have quietrun: "\<exists>new. snd (handleQuery a req endpointName tr) = tr @ new \<and> list_all quiet new"
  proof -
    define userQuery where "userQuery = userQueryOf req"
    have Some: "userQueryOf req = userQuery" by (simp add: userQuery_def)
    show ?thesis
    proof (cases "\<not> truthy userQuery \<or> ragApplication (ragService a) = None \<or> promptConfig a = None")
      case True
      with Some show ?thesis by (auto simp: handleQuery_def Let_def split: option.splits)
    next
      case False
      then obtain q config where init: "truthy userQuery" "ragApplication (ragService a) = Some q"
        "promptConfig a = Some config" by auto
      obtain out tr1 where ro: "retrieveOutput a config (userIdOf req) userQuery (userNameOf req)
                                  (childrenOf req) tr = (out, tr1)"
        by (cases "retrieveOutput a config (userIdOf req) userQuery (userNameOf req) (childrenOf req) tr") auto
      obtain n0 where n0: "tr1 = tr @ n0" "list_all quiet n0"
        using retrieveOutput_quiet[of a config "userIdOf req" userQuery "userNameOf req" "childrenOf req" tr] ro
        by auto
      show ?thesis
      proof (cases out)
        case (Inl e)
        with Some init ro n0 show ?thesis by (simp add: handleQuery_def handleQueryTry_def Let_def)
      next
        case (Inr oc)
        show ?thesis
        proof (cases oc)
          case (CacheHit c)
          with Some init ro Inr n0 show ?thesis by (simp add: handleQuery_def handleQueryTry_def Let_def)
        next
          case (LlmOutput llm)
          have reach: "receivesOutput a req tr userQuery config llm tr1"
            using Some init ro Inr LlmOutput by (simp add: receivesOutput_def)
          obtain out tr2 where p: "parseAndProcess (jsRuntime a) (db a) llm tr1 = (out, tr2)"
            by (cases "parseAndProcess (jsRuntime a) (db a) llm tr1") auto
          obtain n1 where n1: "tr2 = tr1 @ n1" "list_all quiet n1"
            using parseAndProcess_quiet[of "jsRuntime a" "db a" llm tr1] p by auto
          show ?thesis
          proof (cases out)
            case e: (Inl e)
            have "snd (handleQuery a req endpointName tr) = tr2"
              using handleQuery_reached[OF Some init ro[unfolded Inr LlmOutput]] p e
              by (simp add: respond_def)
            then show ?thesis using n0 n1 by simp
          next
            case b: (Inr brj)
            have inv: "\<not> isValidResponse brj" using no reach p b by fastforce
            have "handleQuery a req endpointName tr = (\<lparr>status = 200, body = brj\<rparr>, tr2)"
              using handleQuery_invalid[OF reach p[unfolded b] inv] by simp
            then show ?thesis using n0 n1 by simp
          qed
        qed
      qed
    qed
  qed
  then obtain new where "snd (handleQuery a req endpointName tr) = tr @ new" "list_all quiet new" by blast
  then have "filter isAddEntry (newEvents tr (snd (handleQuery a req endpointName tr))) = []
           \<and> filter isLoaderCustomSet (newEvents tr (snd (handleQuery a req endpointName tr))) = []"
    using list_all_quiet_filter by (simp add: newEvents_def)
  with assms show False by simp
qed

text \<open>
  C8, amended. The response is valid when its answer is a string that is not blank (not
  empty after trimming white space) and does not contain
  \<open>I had a little trouble formatting my response\<close>. \<open>handleQuery\<close> appends conversation
  entries and writes custom data only when it has received an LLM output whose processed
  response is valid; for an invalid response it makes no such call. When the response is
  valid, the memory store has \<open>addEntryToConversation\<close> and both appends succeed, and the
  cache store has \<open>loaderCustomSet\<close>, then exactly two entries are appended, in order a
  \<open>User\<close> entry \<open>{role, content, timestamp}\<close> holding the query and a \<open>Bot\<close> entry holding the
  answer, and exactly one cache write is made, under the cache key of the request, of the
  record \<open>{data, timestamp}\<close> holding the response. Every run only extends the trace, and no
  Bot entry that it appends and no
  response that it writes under a cache key contains the marker, which the fallback answer
  does contain: a trace free of the fallback stays so.
\<close>

theorem persistence_only_when_valid:
  fixes a req endpointName tr
  defines "run \<equiv> handleQuery a req endpointName tr"
  defines "new \<equiv> newEvents tr (snd (handleQuery a req endpointName tr))"
  defines "uid \<equiv> userIdOf req"
  defines "r \<equiv> jsRuntime a"
  shows
   "(\<forall>brj. isValidResponse brj \<longleftrightarrow>
        (\<exists>answer. getProp brj ''answer'' = JStr answer \<and> trim answer \<noteq> []
           \<and> \<not> includesStr answer ''I had a little trouble formatting my response''))
    \<and> (filter isAddEntry new \<noteq> [] \<or> filter isLoaderCustomSet new \<noteq> []
        \<longrightarrow> (\<exists>userQuery config llm tr1 brj tr2. receivesOutput a req tr userQuery config llm tr1
               \<and> parseAndProcess r (db a) llm tr1 = (Inr brj, tr2) \<and> isValidResponse brj))
    \<and> (\<forall>userQuery config llm tr1 brj tr2.
          receivesOutput a req tr userQuery config llm tr1
          \<and> parseAndProcess r (db a) llm tr1 = (Inr brj, tr2) \<and> \<not> isValidResponse brj
        \<longrightarrow> run = (\<lparr>status = 200, body = brj\<rparr>, tr2)
            \<and> filter isAddEntry new = [] \<and> filter isLoaderCustomSet new = [])
    \<and> (\<forall>userQuery config llm tr1 brj tr2 ms add cs set' userTurn botTurn.
          receivesOutput a req tr userQuery config llm tr1
          \<and> parseAndProcess r (db a) llm tr1 = (Inr brj, tr2) \<and> isValidResponse brj
          \<and> mongoStore (memoryService a) = Some ms \<and> addEntryToConversation ms = Some add
          \<and> userTurn = \<lparr>role = ''User'', content = userQuery, timestamp = Date_now r tr2\<rparr>
          \<and> botTurn = \<lparr>role = ''Bot'', content = JStr (answerOf brj),
                        timestamp = Date_now r (tr2 @ [AddEntryToConversation uid userTurn])\<rparr>
          \<and> add uid userTurn tr2 = Inr ()
          \<and> add uid botTurn (tr2 @ [AddEntryToConversation uid userTurn]) = Inr ()
          \<and> mongoStore (cacheService a) = Some cs \<and> loaderCustomSet cs = Some set'
        \<longrightarrow> (\<exists>key. generateCacheKey r uid userQuery
                        (userMetadataForCacheKey (userNameOf req) (childrenOf req)) = Inr key
              \<and> fst run = \<lparr>status = 200, body = brj\<rparr>
              \<and> filter isAddEntry new = [AddEntryToConversation uid userTurn, AddEntryToConversation uid botTurn]
              \<and> filter isCacheWrite new
                  = [LoaderCustomSet uid key
                       (JObj [(''data'', brj),
                              (''timestamp'', JDate (Date_now r (tr2 @ [AddEntryToConversation uid userTurn,
                                                                       AddEntryToConversation uid botTurn])))])]))
    \<and> list_all fallbackFree new
    \<and> snd run = tr @ new
    \<and> (list_all fallbackFree tr \<longrightarrow> list_all fallbackFree (snd run))
    \<and> (\<forall>x fallback. fallbackResponse r x = Inr fallback
            \<longrightarrow> \<not> isValidResponse fallback \<and> includesStr (answerOf fallback) marker)"
proof -
  have 1: "\<forall>brj. isValidResponse brj \<longleftrightarrow>
        (\<exists>answer. getProp brj ''answer'' = JStr answer \<and> trim answer \<noteq> []
           \<and> \<not> includesStr answer ''I had a little trouble formatting my response'')"
    using isValidResponse_iff by blast
  have 2: "filter isAddEntry new \<noteq> [] \<or> filter isLoaderCustomSet new \<noteq> []
        \<longrightarrow> (\<exists>userQuery config llm tr1 brj tr2. receivesOutput a req tr userQuery config llm tr1
               \<and> parseAndProcess r (db a) llm tr1 = (Inr brj, tr2) \<and> isValidResponse brj)"
    unfolding new_def r_def using handleQuery_writes_only_valid[of tr a req endpointName] by blast
  have 3: "\<forall>userQuery config llm tr1 brj tr2.
          receivesOutput a req tr userQuery config llm tr1
          \<and> parseAndProcess r (db a) llm tr1 = (Inr brj, tr2) \<and> \<not> isValidResponse brj
        \<longrightarrow> run = (\<lparr>status = 200, body = brj\<rparr>, tr2)
            \<and> filter isAddEntry new = [] \<and> filter isLoaderCustomSet new = []"
  proof (intro allI impI)
    fix userQuery config llm tr1 brj tr2
    assume h: "receivesOutput a req tr userQuery config llm tr1
          \<and> parseAndProcess r (db a) llm tr1 = (Inr brj, tr2) \<and> \<not> isValidResponse brj"
    then have "handleQuery a req endpointName tr = (\<lparr>status = 200, body = brj\<rparr>, tr2)
         \<and> filter isAddEntry (newEvents tr tr2) = []
         \<and> filter isLoaderCustomSet (newEvents tr tr2) = []"
      unfolding r_def using handleQuery_invalid[of a req tr userQuery config llm tr1 brj tr2 endpointName]
      by blast
    then show "run = (\<lparr>status = 200, body = brj\<rparr>, tr2)
            \<and> filter isAddEntry new = [] \<and> filter isLoaderCustomSet new = []"
      by (simp add: run_def new_def)
  qed
  have 4: "\<forall>userQuery config llm tr1 brj tr2 ms add cs set' userTurn botTurn.
          receivesOutput a req tr userQuery config llm tr1
          \<and> parseAndProcess r (db a) llm tr1 = (Inr brj, tr2) \<and> isValidResponse brj
          \<and> mongoStore (memoryService a) = Some ms \<and> addEntryToConversation ms = Some add
          \<and> userTurn = \<lparr>role = ''User'', content = userQuery, timestamp = Date_now r tr2\<rparr>
          \<and> botTurn = \<lparr>role = ''Bot'', content = JStr (answerOf brj),
                        timestamp = Date_now r (tr2 @ [AddEntryToConversation uid userTurn])\<rparr>
          \<and> add uid userTurn tr2 = Inr ()
          \<and> add uid botTurn (tr2 @ [AddEntryToConversation uid userTurn]) = Inr ()
          \<and> mongoStore (cacheService a) = Some cs \<and> loaderCustomSet cs = Some set'
        \<longrightarrow> (\<exists>key. generateCacheKey r uid userQuery
                        (userMetadataForCacheKey (userNameOf req) (childrenOf req)) = Inr key
              \<and> fst run = \<lparr>status = 200, body = brj\<rparr>
              \<and> filter isAddEntry new = [AddEntryToConversation uid userTurn, AddEntryToConversation uid botTurn]
              \<and> filter isCacheWrite new
                  = [LoaderCustomSet uid key
                       (JObj [(''data'', brj),
                              (''timestamp'', JDate (Date_now r (tr2 @ [AddEntryToConversation uid userTurn,
                                                                       AddEntryToConversation uid botTurn])))])])"
    unfolding run_def new_def uid_def r_def
    using handleQuery_valid[of a req tr _ _ _ _ _ _ _ _ _ _ _ _ endpointName]
    by blast
  have 5: "list_all fallbackFree new"
    unfolding new_def using handleQuery_events[of a req endpointName tr] by (auto simp: newEvents_def)
  have 6: "\<forall>x fallback. fallbackResponse r x = Inr fallback
            \<longrightarrow> \<not> isValidResponse fallback \<and> includesStr (answerOf fallback) marker"
    using fallback_invalid fallback_has_marker by (auto simp: answerOf_def dest!: fallbackResponse_Inr)
  have 7: "snd run = tr @ new"
    unfolding run_def new_def using handleQuery_events[of a req endpointName tr] by (auto simp: newEvents_def)
  have 8: "list_all fallbackFree tr \<longrightarrow> list_all fallbackFree (snd run)"
    using 5 7 by simp
  show ?thesis using 1 2 3 4 5 6 7 8 by blast
qed

text \<open>
  The claim as stated takes a response to be valid when its answer is a non-empty string
  without the marker. The code tests \<open>answer.trim() !== ''\<close>: for the answer \<open>" "\<close>, which
  is such a string, nothing is appended and nothing is cached.
\<close>

theorem handleQuery_blank_answer_counterexample:
  \<open>fst (handleQuery
          (exampleApp (JObj [(''answer'', JStr ''{"answer":" ","relatedProducts":[]}'')])
             (exampleStore JNull (Some twoTurns)))
          exampleRequest ''/chat'' [])
     = \<lparr>status = 200, body = JObj [(''answer'', JStr '' ''), (''relatedProducts'', JArr [])]\<rparr>
   \<and> '' '' \<noteq> [] \<and> \<not> includesStr '' '' ''I had a little trouble formatting my response''
   \<and> filter isAddEntry
        (snd (handleQuery
          (exampleApp (JObj [(''answer'', JStr ''{"answer":" ","relatedProducts":[]}'')])
             (exampleStore JNull (Some twoTurns)))
          exampleRequest ''/chat'' [])) = []
   \<and> filter isLoaderCustomSet
        (snd (handleQuery
          (exampleApp (JObj [(''answer'', JStr ''{"answer":" ","relatedProducts":[]}'')])
             (exampleStore JNull (Some twoTurns)))
          exampleRequest ''/chat'' [])) = []\<close>
  by (simp add: handler_defs example_defs)

theorem persistence_only_when_valid_witness:
  \<open>fst (handleQuery
          (exampleApp (JObj [(''answer'', JStr ''{"answer":"Try the stroller.","relatedProducts":["sku-1",7]}'')])
             (exampleStore JNull (Some twoTurns)))
          exampleRequest ''/chat'' [])
     = \<lparr>status = 200,
        body = JObj [(''answer'', JStr ''Try the stroller.''),
                     (''relatedProducts'',
                      JArr [JObj [(''sku'', JStr ''sku-1''), (''name'', JStr ''Toddler Travel Stroller'')],
                            JObj [(''sku'', JStr ''7''), (''name'', JStr ''Toddler Travel Stroller'')]])]\<rparr>
   \<and> filter isAddEntry
        (newEvents []
          (snd (handleQuery
            (exampleApp (JObj [(''answer'', JStr ''{"answer":"Try the stroller.","relatedProducts":["sku-1",7]}'')])
               (exampleStore JNull (Some twoTurns)))
            exampleRequest ''/chat'' [])))
     = [AddEntryToConversation ''u1'' \<lparr>role = ''User'', content = JStr ''Any strollers?'', timestamp = 6\<rparr>,
        AddEntryToConversation ''u1'' \<lparr>role = ''Bot'', content = JStr ''Try the stroller.'', timestamp = 7\<rparr>]
   \<and> filter isCacheWrite
        (newEvents []
          (snd (handleQuery
            (exampleApp (JObj [(''answer'', JStr ''{"answer":"Try the stroller.","relatedProducts":["sku-1",7]}'')])
               (exampleStore JNull (Some twoTurns)))
            exampleRequest ''/chat'' [])))
     = [LoaderCustomSet ''u1'' ''cache:u1:Any strollers?:{"name":"","children":[]}''
          (JObj [(''data'',
                  JObj [(''answer'', JStr ''Try the stroller.''),
                        (''relatedProducts'',
                         JArr [JObj [(''sku'', JStr ''sku-1''), (''name'', JStr ''Toddler Travel Stroller'')],
                               JObj [(''sku'', JStr ''7''), (''name'', JStr ''Toddler Travel Stroller'')]])]),
                 (''timestamp'', JDate 8)])]\<close>
proof -
  let ?s = \<open>''{"answer":"Try the stroller.","relatedProducts":["sku-1",7]}''\<close>
  let ?store = "exampleStore JNull (Some twoTurns)"
  let ?a = "exampleApp (JObj [(''answer'', JStr ?s)]) ?store"
  let ?brj = "JObj [(''answer'', JStr ''Try the stroller.''),
                     (''relatedProducts'',
                      JArr [JObj [(''sku'', JStr ''sku-1''), (''name'', JStr ''Toddler Travel Stroller'')],
                            JObj [(''sku'', JStr ''7''), (''name'', JStr ''Toddler Travel Stroller'')]])]"
  let ?tr1 = "snd (retrieveOutput ?a exampleConfig (userIdOf exampleRequest) (JStr ''Any strollers?'')
                     (userNameOf exampleRequest) (childrenOf exampleRequest) [])"
  let ?tr2 = "?tr1 @ [ProductsFind [JStr ''sku-1'', JStr ''7'']]"
  let ?u = "\<lparr>role = ''User'', content = JStr ''Any strollers?'', timestamp = 6\<rparr>"
  let ?b = "\<lparr>role = ''Bot'', content = JStr ''Try the stroller.'', timestamp = 7\<rparr>"
  let ?w = \<open>LoaderCustomSet ''u1'' ''cache:u1:Any strollers?:{"name":"","children":[]}''
          (JObj [(''data'', ?brj), (''timestamp'', JDate 8)])\<close>
  have len: "length ?tr1 = 5" by (simp add: handler_defs example_defs)
  have uid: "userIdOf exampleRequest = ''u1''" by (simp add: handler_defs example_defs)
  have now: "Date_now (jsRuntime ?a) = length" by (simp add: example_defs)
  have key: \<open>generateCacheKey (jsRuntime ?a) ''u1'' (JStr ''Any strollers?'')
               (userMetadataForCacheKey (userNameOf exampleRequest) (childrenOf exampleRequest))
             = Inr ''cache:u1:Any strollers?:{"name":"","children":[]}''\<close>
    by (simp add: handler_defs example_defs)
  have reach: "receivesOutput ?a exampleRequest [] (JStr ''Any strollers?'') exampleConfig (JStr ?s) ?tr1"
    by (simp add: receivesOutput_def handler_defs example_defs)
  have parse: "parseAndProcess (jsRuntime ?a) (db ?a) (JStr ?s) ?tr1 = (Inr ?brj, ?tr2)"
    by (simp add: parseAndProcess_def cleanedOutput_def fence_def trim_def isWhiteSpace_def
          getProductsBySKUs_def call_def coerceSku_def example_defs)
  have valid: "isValidResponse ?brj"
    by (simp add: isValidResponse_def marker_def trim_def isWhiteSpace_def)
  have hyp: "receivesOutput ?a exampleRequest [] (JStr ''Any strollers?'') exampleConfig (JStr ?s) ?tr1
      \<and> parseAndProcess (jsRuntime ?a) (db ?a) (JStr ?s) ?tr1 = (Inr ?brj, ?tr2) \<and> isValidResponse ?brj
      \<and> mongoStore (memoryService ?a) = Some ?store
      \<and> addEntryToConversation ?store = Some (\<lambda>userId e tr. Inr ())
      \<and> ?u = \<lparr>role = ''User'', content = JStr ''Any strollers?'', timestamp = Date_now (jsRuntime ?a) ?tr2\<rparr>
      \<and> ?b = \<lparr>role = ''Bot'', content = JStr (answerOf ?brj),
                timestamp = Date_now (jsRuntime ?a)
                              (?tr2 @ [AddEntryToConversation (userIdOf exampleRequest) ?u])\<rparr>
      \<and> (\<lambda>userId e tr. Inr ()) (userIdOf exampleRequest) ?u ?tr2 = Inr ()
      \<and> (\<lambda>userId e tr. Inr ()) (userIdOf exampleRequest) ?b
            (?tr2 @ [AddEntryToConversation (userIdOf exampleRequest) ?u]) = Inr ()
      \<and> mongoStore (cacheService ?a) = Some ?store
      \<and> loaderCustomSet ?store = Some (\<lambda>loaderId key v tr. Inr ())"
  proof -
    have h4: "mongoStore (memoryService ?a) = Some ?store" by (simp add: exampleApp_def)
    have h5: "addEntryToConversation ?store = Some (\<lambda>userId e tr. Inr ())" by (simp add: exampleStore_def)
    have h6: "?u = \<lparr>role = ''User'', content = JStr ''Any strollers?'', timestamp = Date_now (jsRuntime ?a) ?tr2\<rparr>"
      using len by (simp add: now)
    have h7: "?b = \<lparr>role = ''Bot'', content = JStr (answerOf ?brj),
                timestamp = Date_now (jsRuntime ?a)
                              (?tr2 @ [AddEntryToConversation (userIdOf exampleRequest) ?u])\<rparr>"
      using len by (simp add: now answerOf_def)
    have h10: "mongoStore (cacheService ?a) = Some ?store" by (simp add: exampleApp_def)
    have h11: "loaderCustomSet ?store = Some (\<lambda>loaderId key v tr. Inr ())" by (simp add: exampleStore_def)
    show ?thesis using reach parse valid h4 h5 h6 h7 h10 h11 by blast
  qed
  show ?thesis
    using persistence_only_when_valid[where a = ?a and req = exampleRequest and endpointName = "''/chat''"
            and tr = "[]",
            THEN conjunct2, THEN conjunct2, THEN conjunct2, THEN conjunct1, rule_format, OF hyp]
          len
    by (auto simp: uid now key)
qed

end
